theory Spec2Isabelle
  imports Complex_Main
begin

section \<open>Slot assignment, interruption and completion of the evaluation form\<close>

text \<open>
  A shallow embedding of the record-store functions of
  \<^verbatim>\<open>heroku_form/code/form_implementation.py\<close>:
  \<^verbatim>\<open>get_current_slot_for_participant\<close>, \<^verbatim>\<open>get_participant_progress\<close>,
  \<^verbatim>\<open>handle_interruption\<close>, \<^verbatim>\<open>select_replacement_paper\<close>,
  \<^verbatim>\<open>handle_completion\<close>, the functions that read and write the record file, and
  the functions that fetch the results worksheet and append a row to it, together with
  \<^verbatim>\<open>RESULTS_HEADERS\<close> of \<^verbatim>\<open>config.py\<close>.
\<close>

subsection \<open>Data\<close>

text \<open>
  The value of the key \<^verbatim>\<open>start_timestamp\<close> of a record: the key may be absent, hold
  JSON \<^verbatim>\<open>null\<close> (Python \<^verbatim>\<open>None\<close>), or hold a number. Times are real numbers of
  seconds; the rounding of Python floats is not modelled.
\<close>

datatype timestamp = Absent | Null | At real

text \<open>
  One element of \<^verbatim>\<open>evaluation_records.json\<close>. The keys the functions read without a
  guard (\<^verbatim>\<open>participant_id\<close>, \<^verbatim>\<open>slot\<close>, \<^verbatim>\<open>paper_id\<close>, \<^verbatim>\<open>has_summary\<close>) are
  always present. \<^verbatim>\<open>status\<close> is kept as the string the code compares. \<^verbatim>\<open>processed\<close>
  is only ever read through \<^verbatim>\<open>not record.get("processed")\<close>, so an absent key and
  \<^verbatim>\<open>false\<close> are the same value \<open>False\<close>. A key that may be absent is an option.
\<close>

record evaluation_record =
  participant_id :: string
  slot :: int
  paper_id :: string
  has_summary :: bool
  status :: string
  processed :: bool
  start_timestamp :: timestamp
  submit_timestamp :: "real option"
  work_duration :: "int option"
  excluded_papers :: "string list option"
  evaluation :: "string option"
  action :: "string option"
  summary :: "string option"
  participant_name :: "string option"

text \<open>
  What the functions show on the page with \<^verbatim>\<open>st.error\<close>, \<^verbatim>\<open>st.info\<close>,
  \<^verbatim>\<open>st.success\<close> and \<^verbatim>\<open>st.warning\<close>. Each message of the source is one constructor
  carrying the values its f-string formats.
\<close>

datatype level = Error | Info | Success | Warning

datatype message =
    Load_failed
  | Save_failed
  | Records_not_found
  | Participant_not_found string
  | Slot_started int string bool
  | All_completed string nat
  | Interruption_target_not_found string int string
  | No_replacement
  | Paper_interrupted string string
  | Completion_target_not_found string int
  | Records_not_saved
  | Slot_completed int
  | Sheets_auth_failed
  | Spreadsheet_not_found
  | Worksheet_failed
  | Worksheet_missing
  | Worksheet_created
  | Sheet_failed

text \<open>
  The state outside the process: the contents of \<^verbatim>\<open>evaluation_records.json\<close>
  (\<open>None\<close> when the file is missing or is not JSON, as an empty or half-written file
  is), whether the results worksheet exists in its spreadsheet, its rows, and the
  messages shown so far.
\<close>

record world =
  eval_file :: "evaluation_record list option"
  worksheet_exists :: bool
  results_sheet :: "string list list"
  screen :: "(level \<times> message) list"

text \<open>
  How a write of the record file ends. \<^verbatim>\<open>open(path, 'w')\<close> may raise, and the file
  is as it was; or it opens the file, which empties it, and \<^verbatim>\<open>json.dump\<close> then either
  writes the whole collection or raises on the way, leaving an empty or half-written
  file.
\<close>

datatype write_outcome = Written | Open_refused | Dump_failed

text \<open>
  How far a call gets with the results worksheet: to the end; not past
  \<^verbatim>\<open>get_sheets_client\<close>, which raises; not past \<^verbatim>\<open>open_by_key\<close>, which raises
  \<^verbatim>\<open>SpreadsheetNotFound\<close>; not past another exception of \<^verbatim>\<open>open_by_key\<close> or of
  the lookup of the worksheet; not past \<^verbatim>\<open>add_worksheet\<close> or not past
  \<^verbatim>\<open>append_row\<close> of the header row, where a missing worksheet is created; or not
  past \<^verbatim>\<open>append_row\<close> of the data row.
\<close>

datatype sheet_outcome =
    Sheet_reached
  | No_client
  | No_spreadsheet
  | No_worksheet
  | No_creation
  | No_header
  | No_append

text \<open>
  What a call reads from its environment: how writing the file ends, how far it gets
  with the worksheet, the value of \<^verbatim>\<open>time.time()\<close>, the index
  \<^verbatim>\<open>random.choice\<close> draws, the text of
  \<^verbatim>\<open>datetime.now().strftime('%Y-%m-%d %H:%M:%S')\<close>, and the library function
  \<^verbatim>\<open>datetime.fromtimestamp(t).strftime('%Y-%m-%d %H:%M:%S')\<close>.
\<close>

record env =
  disk :: write_outcome
  sheet :: sheet_outcome
  clock :: real
  rand :: nat
  now_str :: string
  strftime :: "real \<Rightarrow> string"

definition RESULTS_HEADERS :: "string list" where
  "RESULTS_HEADERS =
     [''participant_name'', ''has_summary'', ''paper_id'',
      ''start_time'', ''end_time'', ''answer_time'',
      ''action'', ''evaluation'', ''summary'', ''timestamp'']"

subsection \<open>Python helpers\<close>

text \<open>\<^verbatim>\<open>int(x)\<close> on a float truncates toward zero.\<close>

definition py_int :: "real \<Rightarrow> int" where
  "py_int x = (if 0 \<le> x then \<lfloor>x\<rfloor> else \<lceil>x\<rceil>)"

text \<open>\<^verbatim>\<open>str(b)\<close> on a bool.\<close>

definition str_bool :: "bool \<Rightarrow> string" where
  "str_bool b = (if b then ''True'' else ''False'')"

text \<open>\<^verbatim>\<open>str(n)\<close> on an int: decimal digits, with a minus sign when negative.\<close>

fun str_nat :: "nat \<Rightarrow> string" where
  "str_nat n =
     (if n < 10 then [char_of (48 + n)]
      else str_nat (n div 10) @ [char_of (48 + n mod 10)])"

declare str_nat.simps [simp del]

definition str_int :: "int \<Rightarrow> string" where
  "str_int i = (if i < 0 then CHR ''-'' # str_nat (nat (- i)) else str_nat (nat i))"

text \<open>\<^verbatim>\<open>d.get(k, "")\<close> on a dict of strings.\<close>

definition get_str :: "(string \<rightharpoonup> string) \<Rightarrow> string \<Rightarrow> string" where
  "get_str d k = (case d k of None \<Rightarrow> [] | Some v \<Rightarrow> v)"

text \<open>\<^verbatim>\<open>record.get(k, "")\<close> on a text key of a record.\<close>

definition or_empty :: "string option \<Rightarrow> string" where
  "or_empty v = (case v of None \<Rightarrow> [] | Some s \<Rightarrow> s)"

text \<open>\<^verbatim>\<open>record.get("excluded_papers", [])\<close>.\<close>

definition excluded :: "evaluation_record \<Rightarrow> string list" where
  "excluded r = (case excluded_papers r of None \<Rightarrow> [] | Some xs \<Rightarrow> xs)"

definition st :: "level \<Rightarrow> message \<Rightarrow> world \<Rightarrow> world" where
  "st l m w = w\<lparr>screen := screen w @ [(l, m)]\<rparr>"

subsection \<open>The record file\<close>

definition load_evaluation_records :: "world \<Rightarrow> evaluation_record list \<times> world" where
  "load_evaluation_records w =
     (case eval_file w of
        None \<Rightarrow> ([], st Error Load_failed w)
      | Some records \<Rightarrow> (records, w))"

text \<open>
  \<^verbatim>\<open>save_evaluation_records\<close> opens the file with mode \<^verbatim>\<open>'w'\<close> and dumps the
  collection into it; every exception is caught, shown, and answered with \<^verbatim>\<open>False\<close>.
  After a dump that failed the file is not JSON any more.
\<close>

definition save_evaluation_records ::
  "env \<Rightarrow> evaluation_record list \<Rightarrow> world \<Rightarrow> bool \<times> world" where
  "save_evaluation_records e records w =
     (case disk e of
        Written \<Rightarrow> (True, w\<lparr>eval_file := Some records\<rparr>)
      | Open_refused \<Rightarrow> (False, st Error Save_failed w)
      | Dump_failed \<Rightarrow> (False, st Error Save_failed (w\<lparr>eval_file := None\<rparr>)))"

subsection \<open>Slot assignment and progress\<close>

text \<open>
  \<^verbatim>\<open>participant_records\<close> holds the very dicts of \<^verbatim>\<open>records\<close>, so the assignment to
  \<^verbatim>\<open>record["start_timestamp"]\<close> changes \<^verbatim>\<open>records\<close> at the position the dict has
  there. The model keeps that position beside every record (\<open>enumerate\<close>) and writes
  the changed record back at it. \<^verbatim>\<open>list.sort\<close> is stable, as \<open>sort_key\<close> is.
\<close>

definition eligible :: "evaluation_record \<Rightarrow> bool" where
  "eligible r \<longleftrightarrow> status r = ''assigned'' \<and> \<not> processed r"

definition get_current_slot_for_participant ::
  "env \<Rightarrow> string \<Rightarrow> world \<Rightarrow> evaluation_record option \<times> world" where
  "get_current_slot_for_participant e pid w0 =
     (case load_evaluation_records w0 of (records, w1) \<Rightarrow>
        if records = [] then (None, st Error Records_not_found w1)
        else
          let participant_records =
                filter (\<lambda>(i, r). participant_id r = pid) (enumerate 0 records)
          in if participant_records = [] then (None, st Error (Participant_not_found pid) w1)
          else
            let sorted_records = sort_key (\<lambda>(i, r). slot r) participant_records
            in case find (\<lambda>(i, r). eligible r) sorted_records of
                 Some (i, r) \<Rightarrow>
                   let record = r\<lparr>start_timestamp := At (clock e)\<rparr>
                   in (case save_evaluation_records e (records[i := record]) w1 of
                         (saved, w2) \<Rightarrow>
                           (Some record,
                            st Info (Slot_started (slot record) (paper_id record)
                                       (has_summary record)) w2))
               | None \<Rightarrow>
                   let completed_slots =
                         length (filter (\<lambda>(i, r). status r = ''completed'')
                                   participant_records)
                   in (None, st Success (All_completed pid completed_slots) w1))"

record progress =
  completed_slots :: nat
  current_slot :: int
  total_slots :: nat

definition get_participant_progress :: "string \<Rightarrow> world \<Rightarrow> progress \<times> world" where
  "get_participant_progress pid w0 =
     (case load_evaluation_records w0 of (records, w1) \<Rightarrow>
        let participant_records = filter (\<lambda>r. participant_id r = pid) records
        in if participant_records = []
           then (\<lparr>completed_slots = 0, current_slot = 1, total_slots = 4\<rparr>, w1)
           else
             let completed = length (filter (\<lambda>r. status r = ''completed'') participant_records);
                 sorted_records = sort_key slot participant_records
             in (\<lparr>completed_slots = completed,
                  current_slot =
                    (case find (\<lambda>r. status r \<noteq> ''completed'') sorted_records of
                       Some r \<Rightarrow> slot r
                     | None \<Rightarrow> 5),
                  total_slots = 4\<rparr>, w1))"

subsection \<open>The results worksheet\<close>

text \<open>
  \<^verbatim>\<open>initialize_sheets_client\<close> shows the exception of \<^verbatim>\<open>get_sheets_client\<close> and
  returns \<^verbatim>\<open>None\<close>; the result here is whether there is a client.
\<close>

definition initialize_sheets_client :: "env \<Rightarrow> world \<Rightarrow> bool \<times> world" where
  "initialize_sheets_client e w =
     (if sheet e = No_client then (False, st Error Sheets_auth_failed w) else (True, w))"

text \<open>
  \<^verbatim>\<open>get_results_worksheet\<close> returns \<^verbatim>\<open>None\<close> without a message of its own when there
  is no client, and after an \<^verbatim>\<open>st.error\<close> when the spreadsheet is not found or another
  exception is raised. A worksheet that does not exist is created and given the header
  row, between two \<^verbatim>\<open>st.info\<close> messages. The result here is whether there is a
  worksheet.
\<close>

definition get_results_worksheet :: "env \<Rightarrow> world \<Rightarrow> bool \<times> world" where
  "get_results_worksheet e w0 =
     (case initialize_sheets_client e w0 of (client, w1) \<Rightarrow>
        if \<not> client then (False, w1)
        else if sheet e = No_spreadsheet then (False, st Error Spreadsheet_not_found w1)
        else if sheet e = No_worksheet then (False, st Error Worksheet_failed w1)
        else if worksheet_exists w1 then (True, w1)
        else
          let w2 = st Info Worksheet_missing w1
          in if sheet e = No_creation then (False, st Error Worksheet_failed w2)
             else
               let w3 = w2\<lparr>worksheet_exists := True, results_sheet := []\<rparr>
               in if sheet e = No_header then (False, st Error Worksheet_failed w3)
                  else (True,
                        st Info Worksheet_created
                          (w3\<lparr>results_sheet := [RESULTS_HEADERS]\<rparr>)))"

text \<open>
  The two functions that append a row return \<^verbatim>\<open>False\<close> silently when there is no
  worksheet, and after an \<^verbatim>\<open>st.warning\<close> when \<^verbatim>\<open>append_row\<close> raises.
\<close>

definition interruption_row :: "env \<Rightarrow> string \<Rightarrow> string \<Rightarrow> string \<Rightarrow> string list" where
  "interruption_row e name interrupted_paper replacement_paper =
     [name,
      [],
      interrupted_paper,
      now_str e,
      [],
      [],
      [],
      ''INTERRUPTED (replaced with '' @ replacement_paper @ '')'',
      [],
      now_str e]"

definition save_interruption_to_sheets ::
  "env \<Rightarrow> string \<Rightarrow> int \<Rightarrow> string \<Rightarrow> string \<Rightarrow> world \<Rightarrow> bool \<times> world" where
  "save_interruption_to_sheets e pid s interrupted_paper replacement_paper w0 =
     (case get_results_worksheet e w0 of (sheet_found, w1) \<Rightarrow>
        if \<not> sheet_found then (False, w1)
        else if sheet e = No_append then (False, st Warning Sheet_failed w1)
        else (True, w1\<lparr>results_sheet := results_sheet w1 @
                         [interruption_row e pid interrupted_paper replacement_paper]\<rparr>))"

definition completion_row :: "env \<Rightarrow> evaluation_record \<Rightarrow> string list" where
  "completion_row e r =
     [(case participant_name r of None \<Rightarrow> participant_id r | Some n \<Rightarrow> n),
      str_bool (has_summary r),
      paper_id r,
      (case start_timestamp r of At t \<Rightarrow> (if t \<noteq> 0 then strftime e t else []) | _ \<Rightarrow> []),
      (case submit_timestamp r of Some t \<Rightarrow> (if t \<noteq> 0 then strftime e t else []) | None \<Rightarrow> []),
      str_int (case work_duration r of None \<Rightarrow> 0 | Some d \<Rightarrow> d),
      or_empty (evaluation r),
      or_empty (action r),
      or_empty (summary r),
      now_str e]"

definition save_completion_to_sheets :: "env \<Rightarrow> evaluation_record \<Rightarrow> world \<Rightarrow> bool \<times> world" where
  "save_completion_to_sheets e r w0 =
     (case get_results_worksheet e w0 of (sheet_found, w1) \<Rightarrow>
        if \<not> sheet_found then (False, w1)
        else if sheet e = No_append then (False, st Warning Sheet_failed w1)
        else (True, w1\<lparr>results_sheet := results_sheet w1 @ [completion_row e r]\<rparr>))"

subsection \<open>Interruption\<close>

text \<open>The step that adds the interrupted paper to \<^verbatim>\<open>excluded_papers\<close>.\<close>

definition exclude_paper :: "string \<Rightarrow> evaluation_record \<Rightarrow> evaluation_record" where
  "exclude_paper p r =
     (if p \<notin> set (excluded r)
      then r\<lparr>excluded_papers := Some (excluded r @ [p])\<rparr>
      else r)"

definition all_papers :: "string list" where
  "all_papers = [''1'', ''2'', ''3'', ''4'', ''5'', ''6'']"

text \<open>\<^verbatim>\<open>random.choice\<close> returns the element at the index the environment draws.\<close>

definition select_replacement_paper :: "env \<Rightarrow> evaluation_record \<Rightarrow> string option" where
  "select_replacement_paper e r =
     (let available_papers = filter (\<lambda>p. p \<notin> set (excluded r)) all_papers
      in if available_papers = [] then None
         else Some (available_papers ! (rand e mod length available_papers)))"

definition handle_interruption ::
  "env \<Rightarrow> string \<Rightarrow> int \<Rightarrow> string \<Rightarrow> world \<Rightarrow> bool \<times> world" where
  "handle_interruption e pid s p w0 =
     (case load_evaluation_records w0 of (records, w1) \<Rightarrow>
        if records = [] then (False, st Error Records_not_found w1)
        else
          case find (\<lambda>(i, r). participant_id r = pid \<and> slot r = s \<and> paper_id r = p)
                 (enumerate 0 records) of
            None \<Rightarrow> (False, st Error (Interruption_target_not_found pid s p) w1)
          | Some (i, r) \<Rightarrow>
              let target_record = exclude_paper p r
              in case select_replacement_paper e target_record of
                   Some replacement_paper \<Rightarrow>
                     let target_record' =
                           target_record\<lparr>paper_id := replacement_paper,
                                         status := ''assigned'',
                                         start_timestamp := Null\<rparr>
                     in (case save_evaluation_records e (records[i := target_record']) w1 of
                           (saved, w2) \<Rightarrow>
                             (case save_interruption_to_sheets e pid s p replacement_paper w2 of
                                (mirrored, w3) \<Rightarrow>
                                  (True, st Warning (Paper_interrupted p replacement_paper) w3)))
                 | None \<Rightarrow> (False, st Error No_replacement w1))"

subsection \<open>Completion\<close>

text \<open>
  \<^verbatim>\<open>start_time = target_record.get("start_timestamp", submit_time)\<close> followed by
  \<^verbatim>\<open>int(submit_time - start_time) if start_time else 0\<close>: \<^verbatim>\<open>None\<close> and \<^verbatim>\<open>0.0\<close> are
  both false in Python.
\<close>

definition duration :: "real \<Rightarrow> timestamp \<Rightarrow> int" where
  "duration submit_time ts =
     (case (case ts of Absent \<Rightarrow> Some submit_time | Null \<Rightarrow> None | At t \<Rightarrow> Some t) of
        None \<Rightarrow> 0
      | Some start_time \<Rightarrow> (if start_time \<noteq> 0 then py_int (submit_time - start_time) else 0))"

definition complete_record ::
  "real \<Rightarrow> (string \<rightharpoonup> string) \<Rightarrow> evaluation_record \<Rightarrow> evaluation_record" where
  "complete_record submit_time evaluation_data r =
     r\<lparr>status := ''completed'',
       processed := True,
       submit_timestamp := Some submit_time,
       work_duration := Some (duration submit_time (start_timestamp r)),
       evaluation := Some (get_str evaluation_data ''evaluation''),
       action := Some (get_str evaluation_data ''action''),
       summary := Some (get_str evaluation_data ''summary'')\<rparr>"

definition handle_completion ::
  "env \<Rightarrow> string \<Rightarrow> int \<Rightarrow> (string \<rightharpoonup> string) \<Rightarrow> world \<Rightarrow> bool \<times> world" where
  "handle_completion e pid s evaluation_data w0 =
     (case load_evaluation_records w0 of (records, w1) \<Rightarrow>
        if records = [] then (False, st Error Records_not_found w1)
        else
          case find (\<lambda>(i, r). participant_id r = pid \<and> slot r = s \<and> \<not> processed r)
                 (enumerate 0 records) of
            None \<Rightarrow> (False, st Error (Completion_target_not_found pid s) w1)
          | Some (i, r) \<Rightarrow>
              let target_record = complete_record (clock e) evaluation_data r
              in (case save_evaluation_records e (records[i := target_record]) w1 of
                    (saved, w2) \<Rightarrow>
                      if \<not> saved then (False, st Error Records_not_saved w2)
                      else (case save_completion_to_sheets e target_record w2 of
                              (mirrored, w3) \<Rightarrow> (True, st Success (Slot_completed s) w3))))"

subsection \<open>Notions used in the statements\<close>

text \<open>
  The list \<^verbatim>\<open>load_evaluation_records\<close> returns: the contents of the file, or the empty
  list when the file cannot be read.
\<close>

definition stored :: "world \<Rightarrow> evaluation_record list" where
  "stored w = (case eval_file w of None \<Rightarrow> [] | Some records \<Rightarrow> records)"

text \<open>
  The search of \<^verbatim>\<open>get_current_slot_for_participant\<close>: the first record of the
  participant, in slot order, that is assigned and not processed, with its position in
  the file.
\<close>

definition current_entry :: "string \<Rightarrow> evaluation_record list \<Rightarrow> (nat \<times> evaluation_record) option" where
  "current_entry pid records =
     find (\<lambda>(i, r). eligible r)
       (sort_key (\<lambda>(i, r). slot r)
          (filter (\<lambda>(i, r). participant_id r = pid) (enumerate 0 records)))"

text \<open>The search loop of \<^verbatim>\<open>handle_interruption\<close>: the first record that matches.\<close>

definition interruption_target ::
  "string \<Rightarrow> int \<Rightarrow> string \<Rightarrow> evaluation_record list \<Rightarrow> (nat \<times> evaluation_record) option" where
  "interruption_target pid s p records =
     find (\<lambda>(i, r). participant_id r = pid \<and> slot r = s \<and> paper_id r = p) (enumerate 0 records)"

text \<open>The search loop of \<^verbatim>\<open>handle_completion\<close>: the first record that matches.\<close>

definition completion_target ::
  "string \<Rightarrow> int \<Rightarrow> evaluation_record list \<Rightarrow> (nat \<times> evaluation_record) option" where
  "completion_target pid s records =
     find (\<lambda>(i, r). participant_id r = pid \<and> slot r = s \<and> \<not> processed r) (enumerate 0 records)"

text \<open>
  The file after \<^verbatim>\<open>save_evaluation_records\<close> was called with a collection: the
  collection, the file as it was when it could not be opened, or no JSON at all when
  the dump failed.
\<close>

definition after_write ::
  "env \<Rightarrow> evaluation_record list \<Rightarrow> evaluation_record list option \<Rightarrow>
   evaluation_record list option" where
  "after_write e records old =
     (case disk e of Written \<Rightarrow> Some records | Open_refused \<Rightarrow> old | Dump_failed \<Rightarrow> None)"

text \<open>
  A sequence of calls, each with the environment it runs in, applied to the world from
  left to right.
\<close>

datatype operation =
    Get_current_slot env string
  | Interrupt env string int string
  | Complete env string int "string \<rightharpoonup> string"

fun apply_operation :: "operation \<Rightarrow> world \<Rightarrow> world" where
  "apply_operation (Get_current_slot e pid) w = snd (get_current_slot_for_participant e pid w)"
| "apply_operation (Interrupt e pid s p) w = snd (handle_interruption e pid s p w)"
| "apply_operation (Complete e pid s d) w = snd (handle_completion e pid s d w)"

definition run :: "operation list \<Rightarrow> world \<Rightarrow> world" where
  "run ops w = fold apply_operation ops w"

text \<open>
  What every call keeps of a record: its participant, slot and condition; \<^verbatim>\<open>processed\<close>
  once true; the papers excluded so far, without duplicates if there were none; and that
  a completed record is processed.
\<close>

definition evolves :: "evaluation_record \<Rightarrow> evaluation_record \<Rightarrow> bool" where
  "evolves r r' \<longleftrightarrow>
     participant_id r' = participant_id r \<and> slot r' = slot r \<and>
     has_summary r' = has_summary r \<and>
     (processed r \<longrightarrow> processed r') \<and>
     set (excluded r) \<subseteq> set (excluded r') \<and>
     (distinct (excluded r) \<longrightarrow> distinct (excluded r')) \<and>
     ((status r = ''completed'' \<longrightarrow> processed r) \<longrightarrow>
      (status r' = ''completed'' \<longrightarrow> processed r'))"

text \<open>No two records of the file belong to the same participant and slot.\<close>

definition unique_slots :: "evaluation_record list \<Rightarrow> bool" where
  "unique_slots records \<longleftrightarrow>
     (\<forall>i < length records. \<forall>j < length records.
        participant_id (records ! i) = participant_id (records ! j) \<and>
        slot (records ! i) = slot (records ! j) \<longrightarrow> i = j)"

text \<open>
  Values for the examples: a freshly seeded record, a world whose file holds the given
  records and whose worksheet exists without rows, and an environment in which every
  write succeeds.
\<close>

definition seed :: "string \<Rightarrow> int \<Rightarrow> string \<Rightarrow> evaluation_record" where
  "seed pid s p =
     \<lparr>participant_id = pid, slot = s, paper_id = p, has_summary = False,
      status = ''assigned'', processed = False, start_timestamp = Null,
      submit_timestamp = None, work_duration = None, excluded_papers = None,
      evaluation = None, action = None, summary = None, participant_name = None\<rparr>"

definition file_world :: "evaluation_record list \<Rightarrow> world" where
  "file_world records =
     \<lparr>eval_file = Some records, worksheet_exists = True, results_sheet = [], screen = []\<rparr>"

definition env_at :: "real \<Rightarrow> env" where
  "env_at t =
     \<lparr>disk = Written, sheet = Sheet_reached, clock = t, rand = 0,
      now_str = ''2025-01-01 09:00:00'', strftime = (\<lambda>t. ''2025-01-01 08:00:00'')\<rparr>"

text \<open>
  The same environment with a disk on which the dump fails after the file was opened,
  and with a file that cannot be opened for writing.
\<close>

definition env_dump_failed :: "real \<Rightarrow> env" where
  "env_dump_failed t = (env_at t)\<lparr>disk := Dump_failed\<rparr>"

definition env_open_refused :: "real \<Rightarrow> env" where
  "env_open_refused t = (env_at t)\<lparr>disk := Open_refused\<rparr>"

text \<open>A completed record, and a file in which alice has slot 1 completed and slots 2 and 3 open.\<close>

definition finished :: "string \<Rightarrow> int \<Rightarrow> string \<Rightarrow> evaluation_record" where
  "finished pid s p = (seed pid s p)\<lparr>status := ''completed'', processed := True\<rparr>"

definition alice_queue :: "evaluation_record list" where
  "alice_queue =
     [finished ''alice'' 1 ''1'', seed ''alice'' 3 ''3'', seed ''bob'' 1 ''2'',
      seed ''alice'' 2 ''2'']"

text \<open>A record of alice whose slot 1 has already excluded every paper but its own.\<close>

definition exhausted_record :: evaluation_record where
  "exhausted_record =
     (seed ''alice'' 1 ''1'')\<lparr>excluded_papers := Some [''2'', ''3'', ''4'', ''5'', ''6'']\<rparr>"

text \<open>
  Evaluation data without the key \<^verbatim>\<open>summary\<close>, and a record of alice already started
  at a given time.
\<close>

definition partial_data :: "string \<rightharpoonup> string" where
  "partial_data = [''evaluation'' \<mapsto> ''x'', ''action'' \<mapsto> ''y'']"

definition started :: "real \<Rightarrow> evaluation_record" where
  "started t = (seed ''alice'' 1 ''1'')\<lparr>start_timestamp := At t\<rparr>"


text \<open>
  A record of alice that lists paper 1 twice among the excluded ones, and the world
  after alice has interrupted paper 1 of her only slot.
\<close>

definition doubly_excluded :: evaluation_record where
  "doubly_excluded = (seed ''alice'' 1 ''1'')\<lparr>excluded_papers := Some [''1'', ''1'']\<rparr>"

definition interrupted_once :: world where
  "interrupted_once =
     snd (handle_interruption (env_at 100) ''alice'' 1 ''1'' (file_world [seed ''alice'' 1 ''1'']))"

text \<open>
  Paper 1 of alice's first slot is interrupted twice, then paper 2: paper 1 is listed
  once.
\<close>

definition interrupted_twice :: world where
  "interrupted_twice =
     run [Interrupt (env_at 100) ''alice'' 1 ''1'', Interrupt (env_at 110) ''alice'' 1 ''1'',
          Interrupt (env_at 120) ''alice'' 1 ''2'']
       (file_world [seed ''alice'' 1 ''1''])"

text \<open>
  The world after alice completes paper 1 of her only slot, and after that paper is
  then interrupted; a file that lists alice's slot 1 twice; and a file whose record
  is marked completed without being processed.
\<close>

definition after_completion :: world where
  "after_completion =
     snd (handle_completion (env_at 100) ''alice'' 1 partial_data
            (file_world [seed ''alice'' 1 ''1'']))"

definition after_interruption :: world where
  "after_interruption =
     snd (handle_interruption (env_at 150) ''alice'' 1 ''1'' after_completion)"

definition listed_twice :: world where
  "listed_twice = file_world [seed ''alice'' 1 ''1'', seed ''alice'' 1 ''2'']"

definition completed_unprocessed :: world where
  "completed_unprocessed = file_world [(seed ''alice'' 1 ''1'')\<lparr>status := ''completed''\<rparr>]"

text \<open>
  Alice completes slot 1 of two; the completed paper is then interrupted and the
  current slot asked for: the count is 1 and the slot returned is 2.
\<close>

definition two_slots :: world where
  "two_slots = file_world [seed ''alice'' 1 ''1'', seed ''alice'' 2 ''2'']"

section \<open>Properties\<close>

subsection \<open>The calls in terms of their search\<close>

lemma eval_file_st [simp]: "eval_file (st l m w) = eval_file w"
  by (simp add: st_def)

lemma results_sheet_st [simp]: "results_sheet (st l m w) = results_sheet w"
  by (simp add: st_def)

lemma stored_st [simp]: "stored (st l m w) = stored w"
  by (simp add: stored_def)

lemma after_write_simps [simp]:
  "disk e = Written \<Longrightarrow> after_write e records old = Some records"
  "disk e = Open_refused \<Longrightarrow> after_write e records old = old"
  "disk e = Dump_failed \<Longrightarrow> after_write e records old = None"
  by (simp_all add: after_write_def)

lemma save_eq:
  "save_evaluation_records e records w =
     (disk e = Written,
      if disk e = Written then w\<lparr>eval_file := Some records\<rparr>
      else st Error Save_failed (w\<lparr>eval_file := after_write e records (eval_file w)\<rparr>))"
  by (cases "disk e") (simp_all add: save_evaluation_records_def after_write_def)

lemma eval_file_get_results_worksheet [simp]:
  "eval_file (snd (get_results_worksheet e w)) = eval_file w"
  by (simp add: get_results_worksheet_def initialize_sheets_client_def Let_def)

lemma eval_file_save_interruption_to_sheets [simp]:
  "eval_file (snd (save_interruption_to_sheets e pid s p q w)) = eval_file w"
  by (simp add: save_interruption_to_sheets_def split_beta)

lemma eval_file_save_completion_to_sheets [simp]:
  "eval_file (snd (save_completion_to_sheets e r w)) = eval_file w"
  by (simp add: save_completion_to_sheets_def split_beta)

lemma load_eq:
  "load_evaluation_records w =
     (stored w, if eval_file w = None then st Error Load_failed w else w)"
  by (simp add: load_evaluation_records_def stored_def split: option.splits)

lemma stored_eq_Nil: "stored w = [] \<Longrightarrow> eval_file w = None \<or> eval_file w = Some []"
  by (auto simp: stored_def split: option.splits)

lemma stored_nonempty: "stored w \<noteq> [] \<Longrightarrow> eval_file w = Some (stored w)"
  by (auto simp: stored_def split: option.splits)

lemma map_insort_key: "map f (insort_key (\<lambda>x. g (f x)) x xs) = insort_key g (f x) (map f xs)"
  by (induction xs) auto

lemma map_sort_key: "map f (sort_key (\<lambda>x. g (f x)) xs) = sort_key g (map f xs)"
  by (induction xs) (simp_all add: map_insort_key)

lemma find_map: "find P (map f xs) = map_option f (find (\<lambda>x. P (f x)) xs)"
  by (induction xs) auto

lemma map_snd_filter_enumerate:
  "map snd (filter (\<lambda>(i, r). P r) (enumerate n xs)) = filter P xs"
  by (induction xs arbitrary: n) auto

lemma in_enumerate: "(i, r) \<in> set (enumerate 0 xs) \<longleftrightarrow> i < length xs \<and> xs ! i = r"
  by (auto simp: in_set_enumerate_eq)

lemma find_in_set: "find P xs = Some x \<Longrightarrow> x \<in> set xs \<and> P x"
  by (auto simp: find_Some_iff)

lemma current_entry_Nil [simp]: "current_entry pid [] = None"
  by (simp add: current_entry_def)

lemma current_entry_no_participant:
  "filter (\<lambda>(i, r). participant_id r = pid) (enumerate 0 records) = [] \<Longrightarrow>
   current_entry pid records = None"
  by (simp add: current_entry_def)

lemma current_entry_Some:
  assumes "current_entry pid records = Some (i, r)"
  shows "i < length records \<and> records ! i = r \<and> participant_id r = pid \<and> eligible r"
proof -
  from assms have "(i, r) \<in> set (sort_key (\<lambda>(i, r). slot r)
          (filter (\<lambda>(i, r). participant_id r = pid) (enumerate 0 records))) \<and> eligible r"
    unfolding current_entry_def by (auto dest: find_in_set)
  then show ?thesis by (auto simp: in_enumerate)
qed

lemma current_entry_value:
  "map_option snd (current_entry pid records) =
     find eligible (sort_key slot (filter (\<lambda>r. participant_id r = pid) records))"
proof -
  have a: "(\<lambda>(i::nat, r). slot r) = (\<lambda>x. slot (snd x))" by (simp add: fun_eq_iff)
  have b: "(\<lambda>(i::nat, r). eligible r) = (\<lambda>x. eligible (snd x))" by (simp add: fun_eq_iff)
  show ?thesis
    unfolding current_entry_def a b
    by (simp add: find_map [symmetric] map_sort_key map_snd_filter_enumerate)
qed

lemma get_current_slot_result:
  "fst (get_current_slot_for_participant e pid w) =
     map_option (\<lambda>(i, r). r\<lparr>start_timestamp := At (clock e)\<rparr>) (current_entry pid (stored w))"
  by (auto simp: get_current_slot_for_participant_def load_eq Let_def
        save_eq current_entry_def split: option.splits)

lemma get_current_slot_file:
  "eval_file (snd (get_current_slot_for_participant e pid w)) =
     (case current_entry pid (stored w) of
        None \<Rightarrow> eval_file w
      | Some (i, r) \<Rightarrow>
          after_write e ((stored w)[i := r\<lparr>start_timestamp := At (clock e)\<rparr>]) (eval_file w))"
  by (auto simp: get_current_slot_for_participant_def load_eq Let_def
        save_eq current_entry_def after_write_def split: option.splits)

lemma handle_interruption_result:
  "fst (handle_interruption e pid s p w) =
     (case interruption_target pid s p (stored w) of
        None \<Rightarrow> False
      | Some (i, r) \<Rightarrow> select_replacement_paper e (exclude_paper p r) \<noteq> None)"
  by (auto simp: handle_interruption_def load_eq Let_def interruption_target_def
        save_eq split_beta split: option.splits)

lemma handle_interruption_file:
  "eval_file (snd (handle_interruption e pid s p w)) =
     (case interruption_target pid s p (stored w) of
        None \<Rightarrow> eval_file w
      | Some (i, r) \<Rightarrow>
          (case select_replacement_paper e (exclude_paper p r) of
             None \<Rightarrow> eval_file w
           | Some q \<Rightarrow>
               after_write e
                 ((stored w)[i := (exclude_paper p r)
                     \<lparr>paper_id := q, status := ''assigned'', start_timestamp := Null\<rparr>])
                 (eval_file w)))"
  by (auto simp: handle_interruption_def load_eq Let_def interruption_target_def
        save_eq split_beta after_write_def split: option.splits)

lemma handle_completion_result:
  "fst (handle_completion e pid s d w) =
     (completion_target pid s (stored w) \<noteq> None \<and> disk e = Written)"
  by (auto simp: handle_completion_def load_eq Let_def completion_target_def
        save_eq split_beta split: option.splits)

lemma handle_completion_file:
  "eval_file (snd (handle_completion e pid s d w)) =
     (case completion_target pid s (stored w) of
        None \<Rightarrow> eval_file w
      | Some (i, r) \<Rightarrow>
          after_write e ((stored w)[i := complete_record (clock e) d r]) (eval_file w))"
  by (cases "disk e")
     (auto simp: handle_completion_def load_eq Let_def completion_target_def
        save_eq split_beta after_write_def split: option.splits)

subsection \<open>What every call preserves\<close>

lemma evolves_refl [simp]: "evolves r r"
  by (simp add: evolves_def)

lemma evolves_trans: "evolves a b \<Longrightarrow> evolves b c \<Longrightarrow> evolves a c"
  by (auto simp: evolves_def)

lemma excluded_exclude_paper:
  "excluded (exclude_paper p r) = (if p \<in> set (excluded r) then excluded r else excluded r @ [p])"
  by (simp add: exclude_paper_def excluded_def)

lemma exclude_paper_fields [simp]:
  "participant_id (exclude_paper p r) = participant_id r"
  "slot (exclude_paper p r) = slot r"
  "has_summary (exclude_paper p r) = has_summary r"
  "processed (exclude_paper p r) = processed r"
  "status (exclude_paper p r) = status r"
  "paper_id (exclude_paper p r) = paper_id r"
  by (simp_all add: exclude_paper_def)

lemma excluded_update [simp]:
  "excluded (r\<lparr>start_timestamp := t\<rparr>) = excluded r"
  "excluded (r\<lparr>paper_id := q\<rparr>) = excluded r"
  "excluded (r\<lparr>status := u\<rparr>) = excluded r"
  "excluded (complete_record c d r) = excluded r"
  by (simp_all add: excluded_def complete_record_def)

lemma evolves_start: "evolves r (r\<lparr>start_timestamp := t\<rparr>)"
  by (simp add: evolves_def)

lemma evolves_interrupt:
  "evolves r ((exclude_paper p r)\<lparr>paper_id := q, status := ''assigned'', start_timestamp := Null\<rparr>)"
  by (auto simp: evolves_def excluded_exclude_paper)

lemma evolves_complete: "evolves r (complete_record c d r)"
  by (simp add: evolves_def) (simp add: complete_record_def)

lemma list_all2_evolves_update:
  "i < length xs \<Longrightarrow> evolves (xs ! i) r' \<Longrightarrow> list_all2 evolves xs (xs[i := r'])"
  by (simp add: list_all2_conv_all_nth nth_list_update)

lemma list_all2_evolves_refl [simp]: "list_all2 evolves xs xs"
  by (simp add: list_all2_conv_all_nth)

lemma find_enumerate_Some:
  "find (\<lambda>(i, r). P r) (enumerate 0 xs) = Some (i, r) \<Longrightarrow> i < length xs \<and> xs ! i = r \<and> P r"
  by (auto dest!: find_in_set simp: in_enumerate)

lemma interruption_target_Some:
  "interruption_target pid s p records = Some (i, r) \<Longrightarrow>
   i < length records \<and> records ! i = r \<and> participant_id r = pid \<and> slot r = s \<and> paper_id r = p"
  unfolding interruption_target_def by (drule find_enumerate_Some) simp

lemma completion_target_Some:
  "completion_target pid s records = Some (i, r) \<Longrightarrow>
   i < length records \<and> records ! i = r \<and> participant_id r = pid \<and> slot r = s \<and> \<not> processed r"
  unfolding completion_target_def by (drule find_enumerate_Some) simp

lemma stored_Some: "eval_file w = Some rs \<Longrightarrow> stored w = rs"
  by (simp add: stored_def)

lemma get_current_slot_stored:
  "stored (snd (get_current_slot_for_participant e pid w)) =
     (case current_entry pid (stored w) of
        None \<Rightarrow> stored w
      | Some (i, r) \<Rightarrow>
          (case disk e of
             Written \<Rightarrow> (stored w)[i := r\<lparr>start_timestamp := At (clock e)\<rparr>]
           | Open_refused \<Rightarrow> stored w
           | Dump_failed \<Rightarrow> []))"
  unfolding stored_def [of "snd (get_current_slot_for_participant e pid w)"]
    get_current_slot_file
  by (simp add: stored_def after_write_def split: option.splits write_outcome.splits)

lemma handle_interruption_stored:
  "stored (snd (handle_interruption e pid s p w)) =
     (case interruption_target pid s p (stored w) of
        None \<Rightarrow> stored w
      | Some (i, r) \<Rightarrow>
          (case select_replacement_paper e (exclude_paper p r) of
             None \<Rightarrow> stored w
           | Some q \<Rightarrow>
               (case disk e of
                  Written \<Rightarrow>
                    (stored w)[i := (exclude_paper p r)
                       \<lparr>paper_id := q, status := ''assigned'', start_timestamp := Null\<rparr>]
                | Open_refused \<Rightarrow> stored w
                | Dump_failed \<Rightarrow> [])))"
  unfolding stored_def [of "snd (handle_interruption e pid s p w)"]
    handle_interruption_file
  by (simp add: stored_def after_write_def split: option.splits write_outcome.splits)

lemma handle_completion_stored:
  "stored (snd (handle_completion e pid s d w)) =
     (case completion_target pid s (stored w) of
        None \<Rightarrow> stored w
      | Some (i, r) \<Rightarrow>
          (case disk e of
             Written \<Rightarrow> (stored w)[i := complete_record (clock e) d r]
           | Open_refused \<Rightarrow> stored w
           | Dump_failed \<Rightarrow> []))"
  unfolding stored_def [of "snd (handle_completion e pid s d w)"]
    handle_completion_file
  by (simp add: stored_def after_write_def split: option.splits write_outcome.splits)

text \<open>
  From one world to a later one: the file is lost, or it was and is readable and every
  record has evolved at its position.
\<close>

lemma gone_get_current_slot:
  "eval_file w = None \<Longrightarrow> eval_file (snd (get_current_slot_for_participant e pid w)) = None"
  by (simp add: get_current_slot_file stored_def current_entry_def)

lemma gone_handle_interruption:
  "eval_file w = None \<Longrightarrow> eval_file (snd (handle_interruption e pid s p w)) = None"
  by (simp add: handle_interruption_file stored_def interruption_target_def)

lemma gone_handle_completion:
  "eval_file w = None \<Longrightarrow> eval_file (snd (handle_completion e pid s d w)) = None"
  by (simp add: handle_completion_file stored_def completion_target_def)

lemma gone_apply_operation:
  "eval_file w = None \<Longrightarrow> eval_file (apply_operation op w) = None"
  by (cases op)
     (simp_all add: gone_get_current_slot gone_handle_interruption gone_handle_completion)

lemma gone_run: "eval_file w = None \<Longrightarrow> eval_file (run ops w) = None"
proof (induction ops arbitrary: w)
  case Nil
  then show ?case by (simp add: run_def)
next
  case (Cons op ops)
  from Cons.prems have "eval_file (apply_operation op w) = None"
    by (rule gone_apply_operation)
  then have "eval_file (run ops (apply_operation op w)) = None"
    by (rule Cons.IH)
  then show ?case by (simp add: run_def)
qed

lemma stored_gone: "eval_file w = None \<Longrightarrow> stored w = []"
  by (simp add: stored_def)

lemma get_current_slot_evolves:
  assumes "eval_file (snd (get_current_slot_for_participant e pid w)) \<noteq> None"
  shows "list_all2 evolves (stored w) (stored (snd (get_current_slot_for_participant e pid w)))"
proof (cases "current_entry pid (stored w)")
  case None
  then show ?thesis by (simp add: get_current_slot_stored)
next
  case (Some ir)
  obtain i r where ir: "ir = (i, r)" by (cases ir)
  from Some ir have "i < length (stored w) \<and> stored w ! i = r"
    by (auto dest: current_entry_Some)
  with Some ir assms show ?thesis
    by (cases "disk e")
       (simp_all add: get_current_slot_stored get_current_slot_file after_write_def
          list_all2_evolves_update evolves_start)
qed

lemma handle_interruption_evolves:
  assumes "eval_file (snd (handle_interruption e pid s p w)) \<noteq> None"
  shows "list_all2 evolves (stored w) (stored (snd (handle_interruption e pid s p w)))"
proof (cases "interruption_target pid s p (stored w)")
  case None
  then show ?thesis by (simp add: handle_interruption_stored)
next
  case (Some ir)
  obtain i r where ir: "ir = (i, r)" by (cases ir)
  from Some ir have "i < length (stored w) \<and> stored w ! i = r"
    by (auto dest: interruption_target_Some)
  with Some ir assms show ?thesis
    by (cases "disk e"; cases "select_replacement_paper e (exclude_paper p r)")
       (simp_all add: handle_interruption_stored handle_interruption_file after_write_def
          list_all2_evolves_update evolves_interrupt)
qed

lemma handle_completion_evolves:
  assumes "eval_file (snd (handle_completion e pid s d w)) \<noteq> None"
  shows "list_all2 evolves (stored w) (stored (snd (handle_completion e pid s d w)))"
proof (cases "completion_target pid s (stored w)")
  case None
  then show ?thesis by (simp add: handle_completion_stored)
next
  case (Some ir)
  obtain i r where ir: "ir = (i, r)" by (cases ir)
  from Some ir have "i < length (stored w) \<and> stored w ! i = r"
    by (auto dest: completion_target_Some)
  with Some ir assms show ?thesis
    by (cases "disk e")
       (simp_all add: handle_completion_stored handle_completion_file after_write_def
          list_all2_evolves_update evolves_complete)
qed

lemma apply_operation_evolves:
  "eval_file (apply_operation op w) \<noteq> None \<Longrightarrow>
   list_all2 evolves (stored w) (stored (apply_operation op w))"
  by (cases op)
     (simp_all add: get_current_slot_evolves handle_interruption_evolves
        handle_completion_evolves)

lemma list_all2_evolves_trans:
  "list_all2 evolves xs ys \<Longrightarrow> list_all2 evolves ys zs \<Longrightarrow> list_all2 evolves xs zs"
proof (rule list_all2_trans [of evolves evolves evolves xs ys zs])
  show "evolves a c" if "evolves a b" "evolves b c" for a b c
    using that by (rule evolves_trans)
qed

lemma run_evolves:
  "eval_file (run ops w) \<noteq> None \<Longrightarrow> list_all2 evolves (stored w) (stored (run ops w))"
proof (induction ops arbitrary: w)
  case Nil
  then show ?case by (simp add: run_def)
next
  case (Cons op ops)
  have r: "run (op # ops) w = run ops (apply_operation op w)"
    by (simp add: run_def)
  from Cons.prems have n: "eval_file (run ops (apply_operation op w)) \<noteq> None"
    by (simp add: r)
  have m: "eval_file (apply_operation op w) \<noteq> None"
  proof
    assume "eval_file (apply_operation op w) = None"
    then have "eval_file (run ops (apply_operation op w)) = None"
      by (rule gone_run)
    with n show False by simp
  qed
  from m have "list_all2 evolves (stored w) (stored (apply_operation op w))"
    by (rule apply_operation_evolves)
  moreover from n have "list_all2 evolves (stored (apply_operation op w))
                   (stored (run ops (apply_operation op w)))"
    by (rule Cons.IH)
  ultimately show ?case
    unfolding r by (rule list_all2_evolves_trans)
qed

lemmas example_defs = seed_def file_world_def env_at_def

lemma stored_file_world [simp]: "stored (file_world rs) = rs"
  by (simp add: stored_def file_world_def)

lemma eval_file_file_world [simp]: "eval_file (file_world rs) = Some rs"
  by (simp add: file_world_def)

lemma env_fields [simp]:
  "disk (env_at t) = Written" "clock (env_at t) = t" "rand (env_at t) = 0"
  "disk (env_dump_failed t) = Dump_failed" "clock (env_dump_failed t) = t"
  "rand (env_dump_failed t) = 0"
  "disk (env_open_refused t) = Open_refused" "clock (env_open_refused t) = t"
  "rand (env_open_refused t) = 0"
  by (simp_all add: env_at_def env_dump_failed_def env_open_refused_def)

subsection \<open>Progress\<close>

lemma progress_eq:
  "fst (get_participant_progress pid w) =
     (let participant_records = filter (\<lambda>r. participant_id r = pid) (stored w)
      in if participant_records = []
         then \<lparr>completed_slots = 0, current_slot = 1, total_slots = 4\<rparr>
         else \<lparr>completed_slots =
                  length (filter (\<lambda>r. status r = ''completed'') participant_records),
               current_slot =
                 (case find (\<lambda>r. status r \<noteq> ''completed'')
                         (sort_key slot participant_records) of
                    Some r \<Rightarrow> slot r | None \<Rightarrow> 5),
               total_slots = 4\<rparr>)"
  by (simp add: get_participant_progress_def load_eq Let_def)

lemma progress_file: "eval_file (snd (get_participant_progress pid w)) = eval_file w"
  by (simp add: get_participant_progress_def load_eq Let_def)

text \<open>
  C10: for a participant with no record in the file (also when the file is empty or
  cannot be read), \<^verbatim>\<open>get_participant_progress\<close> returns completed_slots 0,
  current_slot 1 and total_slots 4: a fresh start, not the sentinel 5.
\<close>

theorem progress_without_records:
  "filter (\<lambda>r. participant_id r = pid) (stored w) = [] \<Longrightarrow>
   fst (get_participant_progress pid w) =
     \<lparr>completed_slots = 0, current_slot = 1, total_slots = 4\<rparr>"
  by (simp add: progress_eq)

theorem progress_without_records_witness:
  "filter (\<lambda>r. participant_id r = ''carol'') (stored (file_world [seed ''alice'' 1 ''1''])) = [] \<and>
   fst (get_participant_progress ''carol'' (file_world [seed ''alice'' 1 ''1''])) =
     \<lparr>completed_slots = 0, current_slot = 1, total_slots = 4\<rparr>"
proof -
  have h: "filter (\<lambda>r. participant_id r = ''carol'')
             (stored (file_world [seed ''alice'' 1 ''1''])) = []"
    by (simp add: stored_def example_defs)
  from h progress_without_records [OF h] show ?thesis by simp
qed

subsection \<open>The row of an interruption\<close>

text \<open>
  C1: the row \<^verbatim>\<open>save_interruption_to_sheets\<close> appends for the interruption of paper 1
  of participant alice, replaced by paper 2. The marker text is the eighth field, under
  the header \<^verbatim>\<open>evaluation\<close> of \<^verbatim>\<open>RESULTS_HEADERS\<close>; the seventh field, under the
  header \<^verbatim>\<open>action\<close>, is empty.
\<close>

theorem interruption_marker_in_evaluation_column:
  "results_sheet (snd (handle_interruption (env_at 100) ''alice'' 1 ''1''
       (file_world [seed ''alice'' 1 ''1'']))) =
     [[''alice'', [], ''1'', ''2025-01-01 09:00:00'', [], [], [],
       ''INTERRUPTED (replaced with 2)'', [], ''2025-01-01 09:00:00'']] \<and>
   RESULTS_HEADERS ! 6 = ''action'' \<and> RESULTS_HEADERS ! 7 = ''evaluation''"
  by (simp add: handle_interruption_def load_evaluation_records_def
        save_evaluation_records_def save_interruption_to_sheets_def interruption_row_def
        get_results_worksheet_def initialize_sheets_client_def
        select_replacement_paper_def exclude_paper_def excluded_def all_papers_def
        st_def RESULTS_HEADERS_def example_defs)

subsection \<open>The current slot\<close>

text \<open>
  What \<^verbatim>\<open>get_current_slot_for_participant\<close> selects, returns and writes: it filters
  the records to the participant, sorts them by slot and takes the first whose status
  is assigned and that is not processed. When there is none it returns \<^verbatim>\<open>None\<close> and
  leaves the file as it was. Otherwise it returns that record with
  \<^verbatim>\<open>start_timestamp\<close> set to the current time, whatever became of the write of the
  collection with that record replaced at its position.
\<close>

lemma current_slot_selection:
  "case find (\<lambda>r. status r = ''assigned'' \<and> \<not> processed r)
          (sort_key slot (filter (\<lambda>r. participant_id r = pid) (stored w))) of
     None \<Rightarrow>
       fst (get_current_slot_for_participant e pid w) = None \<and>
       eval_file (snd (get_current_slot_for_participant e pid w)) = eval_file w
   | Some r \<Rightarrow>
       fst (get_current_slot_for_participant e pid w) =
         Some (r\<lparr>start_timestamp := At (clock e)\<rparr>) \<and>
       (\<exists>i. i < length (stored w) \<and> stored w ! i = r \<and>
          eval_file (snd (get_current_slot_for_participant e pid w)) =
            (case disk e of
               Written \<Rightarrow> Some ((stored w)[i := r\<lparr>start_timestamp := At (clock e)\<rparr>])
             | Open_refused \<Rightarrow> eval_file w
             | Dump_failed \<Rightarrow> None))"
proof -
  have el: "(\<lambda>r. status r = ''assigned'' \<and> \<not> processed r) = eligible"
    by (simp add: fun_eq_iff eligible_def)
  show ?thesis
    unfolding el
  proof (cases "current_entry pid (stored w)")
    case None
    then have "find eligible (sort_key slot
        (filter (\<lambda>r. participant_id r = pid) (stored w))) = None"
      using current_entry_value [of pid "stored w"] by simp
    with None show "case find eligible (sort_key slot
          (filter (\<lambda>r. participant_id r = pid) (stored w))) of
       None \<Rightarrow>
         fst (get_current_slot_for_participant e pid w) = None \<and>
         eval_file (snd (get_current_slot_for_participant e pid w)) = eval_file w
     | Some r \<Rightarrow>
         fst (get_current_slot_for_participant e pid w) =
           Some (r\<lparr>start_timestamp := At (clock e)\<rparr>) \<and>
         (\<exists>i. i < length (stored w) \<and> stored w ! i = r \<and>
            eval_file (snd (get_current_slot_for_participant e pid w)) =
              (case disk e of
                 Written \<Rightarrow> Some ((stored w)[i := r\<lparr>start_timestamp := At (clock e)\<rparr>])
               | Open_refused \<Rightarrow> eval_file w
               | Dump_failed \<Rightarrow> None))"
      by (simp add: get_current_slot_result get_current_slot_file)
  next
    case (Some ir)
    obtain i r where ir: "ir = (i, r)" by (cases ir)
    from Some ir have f: "find eligible (sort_key slot
        (filter (\<lambda>r. participant_id r = pid) (stored w))) = Some r"
      using current_entry_value [of pid "stored w"] by simp
    from Some ir have "i < length (stored w) \<and> stored w ! i = r"
      by (auto dest: current_entry_Some)
    with Some ir f show "case find eligible (sort_key slot
          (filter (\<lambda>r. participant_id r = pid) (stored w))) of
       None \<Rightarrow>
         fst (get_current_slot_for_participant e pid w) = None \<and>
         eval_file (snd (get_current_slot_for_participant e pid w)) = eval_file w
     | Some r \<Rightarrow>
         fst (get_current_slot_for_participant e pid w) =
           Some (r\<lparr>start_timestamp := At (clock e)\<rparr>) \<and>
         (\<exists>i. i < length (stored w) \<and> stored w ! i = r \<and>
            eval_file (snd (get_current_slot_for_participant e pid w)) =
              (case disk e of
                 Written \<Rightarrow> Some ((stored w)[i := r\<lparr>start_timestamp := At (clock e)\<rparr>])
               | Open_refused \<Rightarrow> eval_file w
               | Dump_failed \<Rightarrow> None))"
      by (auto simp: get_current_slot_result get_current_slot_file after_write_def)
  qed
qed

lemma current_entry_alice_queue:
  "current_entry ''alice'' alice_queue = Some (3, seed ''alice'' 2 ''2'')"
  by (simp add: current_entry_def alice_queue_def eligible_def finished_def seed_def)

text \<open>
  C2: alice has slot 1 completed and slots 2 and 3 open, and the write of the record
  file fails. \<^verbatim>\<open>get_current_slot_for_participant\<close> skips the completed record and
  returns the record of slot 2 with its start time set, as if it had been persisted:
  when the dump fails the file is lost, and when the file cannot be opened it still
  holds the old collection, in which slot 2 has no start time.
\<close>

theorem get_current_slot_returns_unsaved_record:
  "fst (get_current_slot_for_participant (env_dump_failed 100) ''alice''
          (file_world alice_queue)) =
     Some ((seed ''alice'' 2 ''2'')\<lparr>start_timestamp := At 100\<rparr>) \<and>
   eval_file (snd (get_current_slot_for_participant (env_dump_failed 100) ''alice''
          (file_world alice_queue))) = None \<and>
   fst (get_current_slot_for_participant (env_open_refused 100) ''alice''
          (file_world alice_queue)) =
     Some ((seed ''alice'' 2 ''2'')\<lparr>start_timestamp := At 100\<rparr>) \<and>
   eval_file (snd (get_current_slot_for_participant (env_open_refused 100) ''alice''
          (file_world alice_queue))) =
     Some [finished ''alice'' 1 ''1'', seed ''alice'' 3 ''3'', seed ''bob'' 1 ''2'',
           seed ''alice'' 2 ''2'']"
proof -
  have a: "fst (get_current_slot_for_participant (env_dump_failed 100) ''alice''
          (file_world alice_queue)) =
     Some ((seed ''alice'' 2 ''2'')\<lparr>start_timestamp := At 100\<rparr>)"
    by (simp add: get_current_slot_result current_entry_alice_queue)
  have b: "eval_file (snd (get_current_slot_for_participant (env_dump_failed 100) ''alice''
          (file_world alice_queue))) = None"
    by (simp add: get_current_slot_file current_entry_alice_queue after_write_def)
  have c: "fst (get_current_slot_for_participant (env_open_refused 100) ''alice''
          (file_world alice_queue)) =
     Some ((seed ''alice'' 2 ''2'')\<lparr>start_timestamp := At 100\<rparr>)"
    by (simp add: get_current_slot_result current_entry_alice_queue)
  have d: "eval_file (snd (get_current_slot_for_participant (env_open_refused 100) ''alice''
          (file_world alice_queue))) =
     Some [finished ''alice'' 1 ''1'', seed ''alice'' 3 ''3'', seed ''bob'' 1 ''2'',
           seed ''alice'' 2 ''2'']"
    by (simp add: get_current_slot_file current_entry_alice_queue after_write_def)
       (simp add: alice_queue_def)
  from a b c d show ?thesis by blast
qed

subsection \<open>Interruption without a replacement\<close>

text \<open>
  C4: when the record \<^verbatim>\<open>handle_interruption\<close> finds has, after the exclusion step,
  every paper of the catalog in \<^verbatim>\<open>excluded_papers\<close>, the call returns \<^verbatim>\<open>False\<close>,
  shows the error that no replacement is available, and leaves the file and the
  worksheet as they were.
\<close>

theorem interruption_without_replacement:
  assumes "interruption_target pid s p (stored w) = Some (i, r)"
    and "set all_papers \<subseteq> set (excluded (exclude_paper p r))"
  shows "fst (handle_interruption e pid s p w) = False \<and>
         eval_file (snd (handle_interruption e pid s p w)) = eval_file w \<and>
         results_sheet (snd (handle_interruption e pid s p w)) = results_sheet w \<and>
         screen (snd (handle_interruption e pid s p w)) = screen w @ [(Error, No_replacement)]"
proof -
  from assms(2) have "filter (\<lambda>q. q \<notin> set (excluded (exclude_paper p r))) all_papers = []"
    by (auto simp: filter_empty_conv)
  then have n: "select_replacement_paper e (exclude_paper p r) = None"
    by (simp add: select_replacement_paper_def)
  from assms(1) have ne: "stored w \<noteq> []"
    by (auto simp: interruption_target_def)
  then have "eval_file w \<noteq> None" by (auto simp: stored_def split: option.splits)
  with assms(1) n ne show ?thesis
    by (simp add: handle_interruption_def load_eq Let_def interruption_target_def st_def)
qed

theorem interruption_without_replacement_witness:
  "interruption_target ''alice'' 1 ''1'' (stored (file_world [exhausted_record])) =
     Some (0, exhausted_record) \<and>
   set all_papers \<subseteq> set (excluded (exclude_paper ''1'' exhausted_record)) \<and>
   fst (handle_interruption (env_at 100) ''alice'' 1 ''1'' (file_world [exhausted_record])) = False \<and>
   eval_file (snd (handle_interruption (env_at 100) ''alice'' 1 ''1''
      (file_world [exhausted_record]))) = Some [exhausted_record]"
proof -
  have h1: "interruption_target ''alice'' 1 ''1'' (stored (file_world [exhausted_record])) =
      Some (0, exhausted_record)"
    by (simp add: interruption_target_def stored_def exhausted_record_def example_defs)
  have h2: "set all_papers \<subseteq> set (excluded (exclude_paper ''1'' exhausted_record))"
    by (simp add: all_papers_def excluded_def exclude_paper_def exhausted_record_def
          example_defs)
  from interruption_without_replacement [OF h1 h2, where e = "env_at 100"] h1 h2
  show ?thesis by (simp add: file_world_def)
qed

subsection \<open>Interruption\<close>

lemma select_replacement_paper_Some:
  assumes "select_replacement_paper e r = Some q"
  shows "q \<in> set all_papers \<and> q \<notin> set (excluded r)"
proof -
  let ?av = "filter (\<lambda>p. p \<notin> set (excluded r)) all_papers"
  from assms have ne: "?av \<noteq> []" and q: "q = ?av ! (rand e mod length ?av)"
    by (auto simp: select_replacement_paper_def Let_def split: if_splits)
  from ne have "rand e mod length ?av < length ?av" by simp
  then have "?av ! (rand e mod length ?av) \<in> set ?av" by (rule nth_mem)
  with q show ?thesis by simp
qed

lemma exclude_paper_eq:
  "exclude_paper p r =
     r\<lparr>excluded_papers :=
         (if p \<in> set (excluded r) then excluded_papers r else Some (excluded r @ [p]))\<rparr>"
  by (simp add: exclude_paper_def)

text \<open>
  What a call of \<^verbatim>\<open>handle_interruption\<close> that returns \<^verbatim>\<open>True\<close> has done: it found a
  record of the participant, slot and paper given, and drew a replacement from the
  catalog that is neither excluded nor the interrupted paper. The collection it passes
  to \<^verbatim>\<open>save_evaluation_records\<close> is the old one with that record replaced at its
  position; of the record only \<^verbatim>\<open>paper_id\<close> (the replacement), \<^verbatim>\<open>status\<close>
  (assigned), \<^verbatim>\<open>start_timestamp\<close> (null) and \<^verbatim>\<open>excluded_papers\<close> (the interrupted
  paper appended unless present) change. The file holds that collection when the write
  succeeds; it is as before when the file cannot be opened, and lost when the dump
  fails.
\<close>

lemma interruption_effect:
  assumes "fst (handle_interruption e pid s p w)"
  shows "\<exists>i r q.
           interruption_target pid s p (stored w) = Some (i, r) \<and>
           i < length (stored w) \<and> stored w ! i = r \<and>
           participant_id r = pid \<and> slot r = s \<and> paper_id r = p \<and>
           q \<in> set all_papers \<and> q \<notin> set (excluded r) \<and> q \<noteq> p \<and>
           eval_file (snd (handle_interruption e pid s p w)) =
             (case disk e of
                Written \<Rightarrow>
                  Some ((stored w)[i := r\<lparr>excluded_papers :=
                                            (if p \<in> set (excluded r) then excluded_papers r
                                             else Some (excluded r @ [p])),
                                          paper_id := q, status := ''assigned'',
                                          start_timestamp := Null\<rparr>])
              | Open_refused \<Rightarrow> eval_file w
              | Dump_failed \<Rightarrow> None)"
proof -
  from assms obtain i r where t: "interruption_target pid s p (stored w) = Some (i, r)"
    by (auto simp: handle_interruption_result split: option.splits)
  with assms obtain q where q: "select_replacement_paper e (exclude_paper p r) = Some q"
    by (auto simp: handle_interruption_result)
  from t have m: "i < length (stored w) \<and> stored w ! i = r \<and>
      participant_id r = pid \<and> slot r = s \<and> paper_id r = p"
    by (rule interruption_target_Some)
  from q have a: "q \<in> set all_papers \<and> q \<notin> set (excluded (exclude_paper p r))"
    by (rule select_replacement_paper_Some)
  then have b: "q \<notin> set (excluded r) \<and> q \<noteq> p"
    by (auto simp: excluded_exclude_paper split: if_splits)
  have c: "eval_file (snd (handle_interruption e pid s p w)) =
      (case disk e of
         Written \<Rightarrow>
           Some ((stored w)[i := r\<lparr>excluded_papers :=
                                     (if p \<in> set (excluded r) then excluded_papers r
                                      else Some (excluded r @ [p])),
                                   paper_id := q, status := ''assigned'',
                                   start_timestamp := Null\<rparr>])
       | Open_refused \<Rightarrow> eval_file w
       | Dump_failed \<Rightarrow> None)"
    using t q by (simp add: handle_interruption_file after_write_def exclude_paper_eq)
  from t m a b c show ?thesis by blast
qed

text \<open>
  C5: alice interrupts paper 1 of her slot 1 while the write of the record file fails.
  \<^verbatim>\<open>handle_interruption\<close> returns \<^verbatim>\<open>True\<close> all the same. When the dump fails the
  file is lost, and with it the record of the slot and every other record; when the
  file cannot be opened the record still holds paper 1.
\<close>

theorem interruption_succeeds_without_saved_file:
  "fst (handle_interruption (env_dump_failed 100) ''alice'' 1 ''1''
          (file_world [seed ''bob'' 1 ''1'', seed ''alice'' 1 ''1''])) \<and>
   eval_file (snd (handle_interruption (env_dump_failed 100) ''alice'' 1 ''1''
          (file_world [seed ''bob'' 1 ''1'', seed ''alice'' 1 ''1'']))) = None \<and>
   stored (snd (handle_interruption (env_dump_failed 100) ''alice'' 1 ''1''
          (file_world [seed ''bob'' 1 ''1'', seed ''alice'' 1 ''1'']))) = [] \<and>
   fst (handle_interruption (env_open_refused 100) ''alice'' 1 ''1''
          (file_world [seed ''bob'' 1 ''1'', seed ''alice'' 1 ''1''])) \<and>
   stored (snd (handle_interruption (env_open_refused 100) ''alice'' 1 ''1''
          (file_world [seed ''bob'' 1 ''1'', seed ''alice'' 1 ''1'']))) =
     [seed ''bob'' 1 ''1'', seed ''alice'' 1 ''1'']"
proof -
  have t: "interruption_target ''alice'' 1 ''1'' [seed ''bob'' 1 ''1'', seed ''alice'' 1 ''1''] =
      Some (1, seed ''alice'' 1 ''1'')"
    by (simp add: interruption_target_def seed_def)
  have q: "select_replacement_paper e (exclude_paper ''1'' (seed ''alice'' 1 ''1'')) = Some ''2''"
    if "rand e = 0" for e
    using that
    by (simp add: select_replacement_paper_def exclude_paper_def excluded_def all_papers_def
        seed_def)
  have a: "fst (handle_interruption (env_dump_failed 100) ''alice'' 1 ''1''
          (file_world [seed ''bob'' 1 ''1'', seed ''alice'' 1 ''1'']))"
    by (simp add: handle_interruption_result t q)
  have b: "eval_file (snd (handle_interruption (env_dump_failed 100) ''alice'' 1 ''1''
          (file_world [seed ''bob'' 1 ''1'', seed ''alice'' 1 ''1'']))) = None"
    by (simp add: handle_interruption_file t q after_write_def)
  have c: "stored (snd (handle_interruption (env_dump_failed 100) ''alice'' 1 ''1''
          (file_world [seed ''bob'' 1 ''1'', seed ''alice'' 1 ''1'']))) = []"
    by (simp only: stored_def [of "snd (handle_interruption (env_dump_failed 100) ''alice'' 1 ''1''
          (file_world [seed ''bob'' 1 ''1'', seed ''alice'' 1 ''1'']))"] b) simp
  have d: "fst (handle_interruption (env_open_refused 100) ''alice'' 1 ''1''
          (file_world [seed ''bob'' 1 ''1'', seed ''alice'' 1 ''1'']))"
    by (simp add: handle_interruption_result t q)
  have f: "stored (snd (handle_interruption (env_open_refused 100) ''alice'' 1 ''1''
          (file_world [seed ''bob'' 1 ''1'', seed ''alice'' 1 ''1'']))) =
     [seed ''bob'' 1 ''1'', seed ''alice'' 1 ''1'']"
    by (simp add: handle_interruption_stored t q)
  from a b c d f show ?thesis by blast
qed

subsection \<open>Completion\<close>

lemma duration_eq:
  "duration c ts = (case ts of At t \<Rightarrow> if t = 0 then 0 else py_int (c - t) | _ \<Rightarrow> 0)"
  by (simp add: duration_def py_int_def split: timestamp.splits)

text \<open>
  C7, the claim as it stands is false: for a record whose \<^verbatim>\<open>start_timestamp\<close> is the
  number 0 the code stores the duration 0, not now - 0; and a difference that is not
  whole is truncated (from 0.5 to 2 the stored duration is 1, not 1.5).
\<close>

theorem completion_duration_counterexample:
  "fst (handle_completion (env_at 100) ''alice'' 1 partial_data (file_world [started 0])) \<and>
   work_duration (stored (snd (handle_completion (env_at 100) ''alice'' 1 partial_data
       (file_world [started 0]))) ! 0) = Some 0 \<and>
   clock (env_at 100) - 0 \<noteq> 0 \<and>
   work_duration (stored (snd (handle_completion (env_at 2) ''alice'' 1 partial_data
       (file_world [started (1 / 2)]))) ! 0) = Some 1 \<and>
   clock (env_at 2) - 1 / 2 \<noteq> 1"
  by (simp only: handle_completion_result handle_completion_stored)
     (simp add: completion_target_def stored_def complete_record_def duration_def
        py_int_def started_def example_defs)

text \<open>
  C7 as amended: a call of \<^verbatim>\<open>handle_completion\<close> that returns \<^verbatim>\<open>True\<close> found a
  record of the participant and slot with \<^verbatim>\<open>processed\<close> false, and the file now holds
  the collection with that record replaced at its position by the record with status
  completed, processed true, submit_timestamp now, work_duration the difference
  now - start_timestamp truncated toward zero (and 0 when start_timestamp is missing,
  null or 0), and evaluation, action and summary taken from the data, a missing key
  giving the empty string.
\<close>

theorem completion_effect:
  assumes "fst (handle_completion e pid s d w)"
  shows "\<exists>i r.
           completion_target pid s (stored w) = Some (i, r) \<and>
           i < length (stored w) \<and> stored w ! i = r \<and>
           participant_id r = pid \<and> slot r = s \<and> \<not> processed r \<and>
           eval_file (snd (handle_completion e pid s d w)) =
             Some ((stored w)[i := r\<lparr>status := ''completed'', processed := True,
                submit_timestamp := Some (clock e),
                work_duration :=
                  Some (case start_timestamp r of
                          At t \<Rightarrow> if t = 0 then 0 else py_int (clock e - t)
                        | _ \<Rightarrow> 0),
                evaluation := Some (case d ''evaluation'' of None \<Rightarrow> [] | Some v \<Rightarrow> v),
                action := Some (case d ''action'' of None \<Rightarrow> [] | Some v \<Rightarrow> v),
                summary := Some (case d ''summary'' of None \<Rightarrow> [] | Some v \<Rightarrow> v)\<rparr>])"
proof -
  from assms obtain i r where t: "completion_target pid s (stored w) = Some (i, r)"
    and ok: "disk e = Written"
    by (auto simp: handle_completion_result)
  from t have m: "i < length (stored w) \<and> stored w ! i = r \<and>
      participant_id r = pid \<and> slot r = s \<and> \<not> processed r"
    by (rule completion_target_Some)
  have "eval_file (snd (handle_completion e pid s d w)) =
      Some ((stored w)[i := complete_record (clock e) d r])"
    using t ok by (simp add: handle_completion_file after_write_def)
  then have c: "eval_file (snd (handle_completion e pid s d w)) =
             Some ((stored w)[i := r\<lparr>status := ''completed'', processed := True,
                submit_timestamp := Some (clock e),
                work_duration :=
                  Some (case start_timestamp r of
                          At t \<Rightarrow> if t = 0 then 0 else py_int (clock e - t)
                        | _ \<Rightarrow> 0),
                evaluation := Some (case d ''evaluation'' of None \<Rightarrow> [] | Some v \<Rightarrow> v),
                action := Some (case d ''action'' of None \<Rightarrow> [] | Some v \<Rightarrow> v),
                summary := Some (case d ''summary'' of None \<Rightarrow> [] | Some v \<Rightarrow> v)\<rparr>])"
    by (simp add: complete_record_def duration_eq get_str_def)
  from t m c show ?thesis by blast
qed

theorem completion_effect_witness:
  "fst (handle_completion (env_at 100) ''alice'' 1 partial_data (file_world [started 40])) \<and>
   eval_file (snd (handle_completion (env_at 100) ''alice'' 1 partial_data
       (file_world [started 40]))) =
     Some [(started 40)\<lparr>status := ''completed'', processed := True,
             submit_timestamp := Some 100, work_duration := Some 60,
             evaluation := Some ''x'', action := Some ''y'', summary := Some []\<rparr>]"
proof -
  have h: "fst (handle_completion (env_at 100) ''alice'' 1 partial_data
      (file_world [started 40]))"
    by (simp add: handle_completion_result completion_target_def stored_def started_def
          example_defs)
  have r: "eval_file (snd (handle_completion (env_at 100) ''alice'' 1 partial_data
       (file_world [started 40]))) =
     Some [(started 40)\<lparr>status := ''completed'', processed := True,
             submit_timestamp := Some 100, work_duration := Some 60,
             evaluation := Some ''x'', action := Some ''y'', summary := Some []\<rparr>]"
    by (subst handle_completion_file)
       (simp add: completion_target_def stored_def complete_record_def duration_def
          py_int_def get_str_def partial_data_def started_def example_defs)
  from completion_effect [OF h] h r show ?thesis by blast
qed

subsection \<open>No record and no record left\<close>



lemma current_entry_None_iff:
  "current_entry pid records = None \<longleftrightarrow>
   find eligible (sort_key slot (filter (\<lambda>r. participant_id r = pid) records)) = None"
  by (simp add: current_entry_value [symmetric])





subsection \<open>Progress and the current slot\<close>

lemma find_eligible_not_completed:
  assumes "\<forall>r \<in> set xs. (status r \<noteq> ''completed'') = eligible r"
  shows "find (\<lambda>r. status r \<noteq> ''completed'') xs = find eligible xs"
  using assms by (induction xs) auto

lemma current_slot_via_find:
  "(case fst (get_current_slot_for_participant e pid w) of Some r \<Rightarrow> slot r | None \<Rightarrow> 5) =
   (case find eligible (sort_key slot (filter (\<lambda>r. participant_id r = pid) (stored w))) of
      Some r \<Rightarrow> slot r | None \<Rightarrow> 5)"
  by (cases "current_entry pid (stored w)")
     (auto simp: get_current_slot_result current_entry_value [symmetric])

lemma current_result_None_iff:
  "fst (get_current_slot_for_participant e pid w) = None \<longleftrightarrow>
   find eligible (sort_key slot (filter (\<lambda>r. participant_id r = pid) (stored w))) = None"
  by (simp add: get_current_slot_result current_entry_None_iff)

text \<open>
  C3, the claim as it stands is false: for carol, who has no record, no record is
  selected and \<^verbatim>\<open>current_slot\<close> is 1, not 5; and for a record that is assigned but
  already processed, no record is selected and \<^verbatim>\<open>current_slot\<close> is its slot.
\<close>

theorem progress_current_slot_counterexample:
  "fst (get_current_slot_for_participant (env_at 100) ''carol''
          (file_world [seed ''alice'' 1 ''1''])) = None \<and>
   current_slot (fst (get_participant_progress ''carol''
          (file_world [seed ''alice'' 1 ''1'']))) = 1 \<and>
   fst (get_current_slot_for_participant (env_at 100) ''alice''
          (file_world [(seed ''alice'' 2 ''1'')\<lparr>processed := True\<rparr>])) = None \<and>
   current_slot (fst (get_participant_progress ''alice''
          (file_world [(seed ''alice'' 2 ''1'')\<lparr>processed := True\<rparr>]))) = 2"
  by (simp add: get_current_slot_result current_entry_def progress_eq stored_def
        eligible_def example_defs)

text \<open>
  C3 as amended: \<^verbatim>\<open>completed_slots\<close> is always the number of the participant's
  records with status completed. For a participant who has at least one record, and
  whose every record is either completed or assigned and not processed,
  \<^verbatim>\<open>current_slot\<close> is the slot of the record \<^verbatim>\<open>get_current_slot_for_participant\<close>
  selects, and 5 when it selects none; when the slots lie between 1 and 4, it is 5
  exactly when none is selected.
\<close>

theorem progress_agrees_with_current_slot:
  "completed_slots (fst (get_participant_progress pid w)) =
     length (filter (\<lambda>r. participant_id r = pid \<and> status r = ''completed'') (stored w)) \<and>
   (filter (\<lambda>r. participant_id r = pid) (stored w) \<noteq> [] \<and>
    (\<forall>r \<in> set (stored w). participant_id r = pid \<longrightarrow>
        (status r \<noteq> ''completed'') = eligible r) \<longrightarrow>
      current_slot (fst (get_participant_progress pid w)) =
        (case fst (get_current_slot_for_participant e pid w) of
           Some r \<Rightarrow> slot r | None \<Rightarrow> 5) \<and>
      ((\<forall>r \<in> set (stored w). participant_id r = pid \<longrightarrow> 1 \<le> slot r \<and> slot r \<le> 4) \<longrightarrow>
         (current_slot (fst (get_participant_progress pid w)) = 5 \<longleftrightarrow>
          fst (get_current_slot_for_participant e pid w) = None)))"
proof (intro conjI impI)
  show "completed_slots (fst (get_participant_progress pid w)) =
     length (filter (\<lambda>r. participant_id r = pid \<and> status r = ''completed'') (stored w))"
    by (cases "filter (\<lambda>r. participant_id r = pid) (stored w) = []")
       (auto simp: progress_eq Let_def filter_empty_conv)
next
  let ?xs = "sort_key slot (filter (\<lambda>r. participant_id r = pid) (stored w))"
  assume a: "filter (\<lambda>r. participant_id r = pid) (stored w) \<noteq> [] \<and>
    (\<forall>r \<in> set (stored w). participant_id r = pid \<longrightarrow>
        (status r \<noteq> ''completed'') = eligible r)"
  then have "\<forall>r \<in> set ?xs. (status r \<noteq> ''completed'') = eligible r" by simp
  then have f: "find (\<lambda>r. status r \<noteq> ''completed'') ?xs = find eligible ?xs"
    by (rule find_eligible_not_completed)
  from a have p: "current_slot (fst (get_participant_progress pid w)) =
      (case find eligible ?xs of Some r \<Rightarrow> slot r | None \<Rightarrow> 5)"
    by (simp add: progress_eq Let_def f)
  then show c: "current_slot (fst (get_participant_progress pid w)) =
        (case fst (get_current_slot_for_participant e pid w) of
           Some r \<Rightarrow> slot r | None \<Rightarrow> 5)"
    by (simp add: current_slot_via_find)
  assume b: "\<forall>r \<in> set (stored w). participant_id r = pid \<longrightarrow> 1 \<le> slot r \<and> slot r \<le> 4"
  show "current_slot (fst (get_participant_progress pid w)) = 5 \<longleftrightarrow>
          fst (get_current_slot_for_participant e pid w) = None"
  proof (cases "find eligible ?xs")
    case None
    with p show ?thesis by (simp add: current_result_None_iff)
  next
    case (Some r)
    then have "r \<in> set ?xs" by (auto dest: find_in_set)
    with b have "slot r \<noteq> 5" by auto
    with Some p show ?thesis by (simp add: current_result_None_iff)
  qed
qed

theorem progress_agrees_with_current_slot_witness:
  "completed_slots (fst (get_participant_progress ''alice''
       (file_world [seed ''alice'' 2 ''3'', finished ''alice'' 1 ''1'']))) = 1 \<and>
   current_slot (fst (get_participant_progress ''alice''
       (file_world [seed ''alice'' 2 ''3'', finished ''alice'' 1 ''1'']))) = 2 \<and>
   map_option slot (fst (get_current_slot_for_participant (env_at 100) ''alice''
       (file_world [seed ''alice'' 2 ''3'', finished ''alice'' 1 ''1'']))) = Some 2"
proof -
  let ?w = "file_world [seed ''alice'' 2 ''3'', finished ''alice'' 1 ''1'']"
  have s: "stored ?w = [seed ''alice'' 2 ''3'', finished ''alice'' 1 ''1'']"
    by (simp add: stored_def file_world_def)
  have h: "filter (\<lambda>r. participant_id r = ''alice'') (stored ?w) \<noteq> [] \<and>
    (\<forall>r \<in> set (stored ?w). participant_id r = ''alice'' \<longrightarrow>
        (status r \<noteq> ''completed'') = eligible r)"
    unfolding s by (simp add: eligible_def finished_def seed_def)
  have g: "map_option slot (fst (get_current_slot_for_participant (env_at 100) ''alice'' ?w)) =
      Some 2"
    unfolding get_current_slot_result s
    by (simp add: current_entry_def eligible_def finished_def seed_def)
  have n: "length (filter (\<lambda>r. participant_id r = ''alice'' \<and> status r = ''completed'')
      (stored ?w)) = 1"
    unfolding s by (simp add: finished_def seed_def)
  from progress_agrees_with_current_slot [where pid = "''alice''" and w = ?w
      and e = "env_at 100"] h n
  have c: "completed_slots (fst (get_participant_progress ''alice'' ?w)) = 1 \<and>
      current_slot (fst (get_participant_progress ''alice'' ?w)) =
        (case fst (get_current_slot_for_participant (env_at 100) ''alice'' ?w) of
           Some r \<Rightarrow> slot r | None \<Rightarrow> 5)"
    by simp
  from g obtain r where "fst (get_current_slot_for_participant (env_at 100) ''alice'' ?w) = Some r"
    and "slot r = 2" by auto
  with c g show ?thesis by simp
qed

subsection \<open>Excluded papers\<close>

lemma count_list_distinct: "distinct xs \<Longrightarrow> x \<in> set xs \<Longrightarrow> count_list xs x = 1"
  by (induction xs) auto

lemma exclude_paper_idem: "exclude_paper p (exclude_paper p r) = exclude_paper p r"
  by (cases "excluded_papers r") (auto simp: exclude_paper_def excluded_def)

lemma run_length:
  "eval_file (run ops w) \<noteq> None \<Longrightarrow> length (stored (run ops w)) = length (stored w)"
  using run_evolves [of ops w] by (simp add: list_all2_lengthD)

lemma run_evolves_nth:
  "eval_file (run ops w) \<noteq> None \<Longrightarrow> i < length (stored w) \<Longrightarrow>
   evolves (stored w ! i) (stored (run ops w) ! i)"
  using run_evolves [of ops w] by (simp add: list_all2_nthD)

lemma stored_interrupted_once:
  "stored interrupted_once =
     [(seed ''alice'' 1 ''1'')\<lparr>excluded_papers := Some [''1''], paper_id := ''2''\<rparr>]"
  unfolding interrupted_once_def
  apply (simp only: handle_interruption_stored stored_file_world)
  apply (simp add: interruption_target_def select_replacement_paper_def all_papers_def
      exclude_paper_def excluded_def seed_def Let_def)
  done

text \<open>
  C6, the claim as it stands is false. For a record that lists paper 1 twice the
  exclusion step leaves it listed twice, and so does the interruption of paper 1. And
  the excluded papers of a record do not only grow: when the dump of a later
  interruption fails, the call returns \<^verbatim>\<open>True\<close> and the file is lost, with the
  record and the papers it had excluded.
\<close>

theorem exclusion_counterexample:
  "count_list (excluded (exclude_paper ''1'' doubly_excluded)) ''1'' = 2 \<and>
   fst (handle_interruption (env_at 100) ''alice'' 1 ''1'' (file_world [doubly_excluded])) \<and>
   map excluded (stored (snd (handle_interruption (env_at 100) ''alice'' 1 ''1''
      (file_world [doubly_excluded])))) = [[''1'', ''1'']] \<and>
   map excluded (stored interrupted_once) = [[''1'']] \<and>
   fst (handle_interruption (env_dump_failed 110) ''alice'' 1 ''2'' interrupted_once) \<and>
   map excluded (stored (snd (handle_interruption (env_dump_failed 110) ''alice'' 1 ''2''
      interrupted_once))) = []"
proof -
  have a: "count_list (excluded (exclude_paper ''1'' doubly_excluded)) ''1'' = 2"
    by (simp add: exclude_paper_def excluded_def doubly_excluded_def)
  have t: "interruption_target ''alice'' 1 ''1'' [doubly_excluded] = Some (0, doubly_excluded)"
    by (simp add: interruption_target_def doubly_excluded_def seed_def)
  have q: "select_replacement_paper (env_at 100) (exclude_paper ''1'' doubly_excluded) =
      Some ''2''"
    by (simp add: select_replacement_paper_def exclude_paper_def excluded_def all_papers_def
        doubly_excluded_def)
  have b: "fst (handle_interruption (env_at 100) ''alice'' 1 ''1''
      (file_world [doubly_excluded]))"
    by (simp add: handle_interruption_result t q)
  have c: "map excluded (stored (snd (handle_interruption (env_at 100) ''alice'' 1 ''1''
      (file_world [doubly_excluded])))) = [[''1'', ''1'']]"
    by (simp add: handle_interruption_stored t q)
       (simp add: exclude_paper_def excluded_def doubly_excluded_def)
  have d: "map excluded (stored interrupted_once) = [[''1'']]"
    by (simp add: stored_interrupted_once excluded_def)
  have t2: "interruption_target ''alice'' 1 ''2'' (stored interrupted_once) =
      Some (0, (seed ''alice'' 1 ''1'')\<lparr>excluded_papers := Some [''1''], paper_id := ''2''\<rparr>)"
    by (simp add: stored_interrupted_once interruption_target_def seed_def)
  have q2: "select_replacement_paper (env_dump_failed 110)
      (exclude_paper ''2''
         ((seed ''alice'' 1 ''1'')\<lparr>excluded_papers := Some [''1''], paper_id := ''2''\<rparr>)) =
      Some ''3''"
    by (simp add: select_replacement_paper_def exclude_paper_def excluded_def all_papers_def)
  have e: "fst (handle_interruption (env_dump_failed 110) ''alice'' 1 ''2'' interrupted_once)"
    by (simp add: handle_interruption_result t2 q2)
  have f: "map excluded (stored (snd (handle_interruption (env_dump_failed 110) ''alice'' 1 ''2''
      interrupted_once))) = []"
    by (simp add: handle_interruption_stored t2 q2)
  from a b c d e f show ?thesis by blast
qed

text \<open>
  C6 as amended: excluding a paper from a record is idempotent and puts the paper among
  the excluded ones; a paper already excluded leaves the record as it is, and a new one
  is listed once; the papers excluded before stay excluded; where they were listed
  without duplicates they still are, and the excluded paper is listed exactly once.
  After every sequence of calls that leaves a readable file, the file keeps its
  records, the excluded papers of each record have only grown, and a list without
  duplicates is still without duplicates.
\<close>

theorem exclusion_idempotent_and_growing:
  "exclude_paper p (exclude_paper p r) = exclude_paper p r \<and>
   p \<in> set (excluded (exclude_paper p r)) \<and>
   count_list (excluded (exclude_paper p r)) p =
     (if p \<in> set (excluded r) then count_list (excluded r) p else 1) \<and>
   set (excluded r) \<subseteq> set (excluded (exclude_paper p r)) \<and>
   (distinct (excluded r) \<longrightarrow>
      distinct (excluded (exclude_paper p r)) \<and>
      count_list (excluded (exclude_paper p r)) p = 1) \<and>
   (eval_file (run ops w) \<noteq> None \<longrightarrow>
      length (stored (run ops w)) = length (stored w) \<and>
      (\<forall>i < length (stored w).
         set (excluded (stored w ! i)) \<subseteq> set (excluded (stored (run ops w) ! i)) \<and>
         (distinct (excluded (stored w ! i)) \<longrightarrow>
            distinct (excluded (stored (run ops w) ! i)))))"
proof -
  have a: "p \<in> set (excluded (exclude_paper p r))"
    by (simp add: excluded_exclude_paper)
  have b: "set (excluded r) \<subseteq> set (excluded (exclude_paper p r))"
    by (auto simp: excluded_exclude_paper)
  have c: "distinct (excluded (exclude_paper p r))" if "distinct (excluded r)"
    using that by (simp add: excluded_exclude_paper)
  have d: "\<forall>i < length (stored w).
      set (excluded (stored w ! i)) \<subseteq> set (excluded (stored (run ops w) ! i)) \<and>
      (distinct (excluded (stored w ! i)) \<longrightarrow>
         distinct (excluded (stored (run ops w) ! i)))"
    if f: "eval_file (run ops w) \<noteq> None"
  proof (intro allI impI)
    fix i assume "i < length (stored w)"
    with f have "evolves (stored w ! i) (stored (run ops w) ! i)"
      by (rule run_evolves_nth)
    then show "set (excluded (stored w ! i)) \<subseteq> set (excluded (stored (run ops w) ! i)) \<and>
      (distinct (excluded (stored w ! i)) \<longrightarrow>
         distinct (excluded (stored (run ops w) ! i)))"
      unfolding evolves_def by blast
  qed
  have n: "count_list (excluded (exclude_paper p r)) p =
     (if p \<in> set (excluded r) then count_list (excluded r) p else 1)"
    by (simp add: excluded_exclude_paper)
  from a b c d n show ?thesis
    using exclude_paper_idem [of p r] run_length [of ops w] count_list_distinct [OF c a]
    by blast
qed

lemma stored_interrupted_twice:
  "stored interrupted_twice =
     [(seed ''alice'' 1 ''1'')\<lparr>excluded_papers := Some [''1'', ''2''], paper_id := ''3''\<rparr>]"
  unfolding interrupted_twice_def run_def
  apply (simp only: fold_simps apply_operation.simps handle_interruption_stored
      stored_file_world)
  apply (simp add: interruption_target_def select_replacement_paper_def all_papers_def
      excluded_exclude_paper exclude_paper_def excluded_def seed_def Let_def)
  done

theorem exclusion_idempotent_and_growing_witness:
  "excluded (exclude_paper ''1'' (exclude_paper ''1'' (seed ''alice'' 1 ''1''))) = [''1''] \<and>
   count_list (excluded (exclude_paper ''1'' (seed ''alice'' 1 ''1''))) ''1'' = 1 \<and>
   length (stored interrupted_twice) = 1 \<and>
   excluded (stored interrupted_twice ! 0) = [''1'', ''2''] \<and>
   distinct (excluded (stored interrupted_twice ! 0))"
proof -
  have s: "stored (file_world [seed ''alice'' 1 ''1'']) = [seed ''alice'' 1 ''1'']"
    by simp
  have e: "excluded (seed ''alice'' 1 ''1'') = []"
    by (simp add: excluded_def seed_def)
  have "stored interrupted_twice \<noteq> []"
    by (simp add: stored_interrupted_twice)
  then have f: "eval_file interrupted_twice \<noteq> None"
    by (auto dest: stored_nonempty)
  note t = exclusion_idempotent_and_growing [where p = "''1''" and r = "seed ''alice'' 1 ''1''"
      and w = "file_world [seed ''alice'' 1 ''1'']"
      and ops = "[Interrupt (env_at 100) ''alice'' 1 ''1'',
                  Interrupt (env_at 110) ''alice'' 1 ''1'',
                  Interrupt (env_at 120) ''alice'' 1 ''2'']",
      folded interrupted_twice_def, unfolded s]
  have i: "exclude_paper ''1'' (exclude_paper ''1'' (seed ''alice'' 1 ''1'')) =
           exclude_paper ''1'' (seed ''alice'' 1 ''1'')"
    using t by blast
  have c: "count_list (excluded (exclude_paper ''1'' (seed ''alice'' 1 ''1''))) ''1'' = 1"
    using t e by simp
  have l: "length (stored interrupted_twice) = 1"
    using t f by simp
  have d: "distinct (excluded (stored interrupted_twice ! 0))"
    using t e f by simp
  have x: "excluded (exclude_paper ''1'' (seed ''alice'' 1 ''1'')) = [''1'']"
    by (simp add: excluded_exclude_paper e)
  have y: "excluded (stored interrupted_twice ! 0) = [''1'', ''2'']"
    by (simp add: stored_interrupted_twice excluded_def)
  from i c l d x y show ?thesis by simp
qed

subsection \<open>After a completion\<close>

lemma completed_slots_count:
  "completed_slots (fst (get_participant_progress pid w)) =
     length (filter (\<lambda>r. participant_id r = pid \<and> status r = ''completed'') (stored w))"
  by (cases "filter (\<lambda>r. participant_id r = pid) (stored w) = []")
     (auto simp: progress_eq Let_def filter_empty_conv)

lemma length_filter_update:
  "i < length xs \<Longrightarrow> \<not> P (xs ! i) \<Longrightarrow> P y \<Longrightarrow>
   length (filter P (xs[i := y])) = Suc (length (filter P xs))"
proof (induction xs arbitrary: i)
  case Nil
  then show ?case by simp
next
  case (Cons x xs)
  then show ?case by (cases i) auto
qed

lemma unique_slots_evolves:
  assumes "list_all2 evolves xs ys" and "unique_slots xs"
  shows "unique_slots ys"
proof -
  from assms(1) have l: "length xs = length ys"
    by (rule list_all2_lengthD)
  have k: "participant_id (ys ! i) = participant_id (xs ! i) \<and> slot (ys ! i) = slot (xs ! i)"
    if "i < length xs" for i
    using list_all2_nthD [OF assms(1) that] by (simp add: evolves_def)
  from assms(2) show ?thesis
    unfolding unique_slots_def l [symmetric] by (simp add: k)
qed

lemma processed_complete_record [simp]:
  "processed (complete_record c d r)"
  "status (complete_record c d r) = ''completed''"
  "participant_id (complete_record c d r) = participant_id r"
  "slot (complete_record c d r) = slot r"
  by (simp_all add: complete_record_def)

lemma stored_after_completion:
  "stored after_completion = [complete_record 100 partial_data (seed ''alice'' 1 ''1'')]"
  unfolding after_completion_def
  apply (simp only: handle_completion_stored stored_file_world)
  apply (simp add: completion_target_def seed_def env_at_def)
  done

lemma stored_after_interruption:
  "stored after_interruption =
     [(complete_record 100 partial_data (seed ''alice'' 1 ''1''))
        \<lparr>excluded_papers := Some [''1''], paper_id := ''2'', status := ''assigned'',
         start_timestamp := Null\<rparr>]"
  unfolding after_interruption_def
  apply (simp only: handle_interruption_stored stored_after_completion)
  apply (simp add: interruption_target_def select_replacement_paper_def all_papers_def
      exclude_paper_def excluded_def complete_record_def seed_def env_at_def Let_def)
  done

text \<open>
  C8, the claim as it stands is false. Completed is left again: interrupting the
  completed paper succeeds, sets the status of the record back to assigned, and the
  count of completed slots returns to 0. In a file that lists the slot twice the slot
  is returned again after its completion; and for a record marked completed but not
  processed the completion leaves the count as it was.
\<close>

theorem completion_not_terminal_counterexample:
  "fst (handle_completion (env_at 100) ''alice'' 1 partial_data
          (file_world [seed ''alice'' 1 ''1''])) \<and>
   map status (stored after_completion) = [''completed''] \<and>
   completed_slots (fst (get_participant_progress ''alice'' after_completion)) = 1 \<and>
   fst (handle_interruption (env_at 150) ''alice'' 1 ''1'' after_completion) \<and>
   map status (stored after_interruption) = [''assigned''] \<and>
   completed_slots (fst (get_participant_progress ''alice'' after_interruption)) = 0 \<and>
   fst (handle_completion (env_at 100) ''alice'' 1 partial_data listed_twice) \<and>
   map_option slot (fst (get_current_slot_for_participant (env_at 200) ''alice''
      (snd (handle_completion (env_at 100) ''alice'' 1 partial_data listed_twice)))) = Some 1 \<and>
   completed_slots (fst (get_participant_progress ''alice'' completed_unprocessed)) = 1 \<and>
   fst (handle_completion (env_at 100) ''alice'' 1 partial_data completed_unprocessed) \<and>
   completed_slots (fst (get_participant_progress ''alice''
      (snd (handle_completion (env_at 100) ''alice'' 1 partial_data completed_unprocessed)))) = 1"
proof -
  have a: "fst (handle_completion (env_at 100) ''alice'' 1 partial_data
          (file_world [seed ''alice'' 1 ''1'']))"
    by (simp add: handle_completion_result completion_target_def seed_def env_at_def)
  have b: "map status (stored after_completion) = [''completed'']"
    by (simp add: stored_after_completion)
  have c: "completed_slots (fst (get_participant_progress ''alice'' after_completion)) = 1"
    by (simp add: completed_slots_count stored_after_completion seed_def)
  have d: "fst (handle_interruption (env_at 150) ''alice'' 1 ''1'' after_completion)"
    apply (simp only: handle_interruption_result stored_after_completion)
    apply (simp add: interruption_target_def select_replacement_paper_def all_papers_def
        exclude_paper_def excluded_def complete_record_def seed_def env_at_def Let_def)
    done
  have e: "map status (stored after_interruption) = [''assigned'']"
    by (simp add: stored_after_interruption)
  have f: "completed_slots (fst (get_participant_progress ''alice'' after_interruption)) = 0"
    by (simp add: completed_slots_count stored_after_interruption)
  have g: "fst (handle_completion (env_at 100) ''alice'' 1 partial_data listed_twice)"
    by (simp add: handle_completion_result completion_target_def listed_twice_def
        seed_def env_at_def)
  have s: "stored (snd (handle_completion (env_at 100) ''alice'' 1 partial_data listed_twice)) =
      [complete_record 100 partial_data (seed ''alice'' 1 ''1''), seed ''alice'' 1 ''2'']"
    unfolding listed_twice_def
    apply (simp only: handle_completion_stored stored_file_world)
    apply (simp add: completion_target_def seed_def env_at_def)
    done
  have h: "map_option slot (fst (get_current_slot_for_participant (env_at 200) ''alice''
      (snd (handle_completion (env_at 100) ''alice'' 1 partial_data listed_twice)))) = Some 1"
    apply (simp only: get_current_slot_result s)
    apply (simp add: current_entry_def eligible_def complete_record_def seed_def)
    done
  have i: "completed_slots (fst (get_participant_progress ''alice'' completed_unprocessed)) = 1"
    by (simp add: completed_slots_count completed_unprocessed_def seed_def)
  have j: "fst (handle_completion (env_at 100) ''alice'' 1 partial_data completed_unprocessed)"
    by (simp add: handle_completion_result completion_target_def completed_unprocessed_def
        seed_def env_at_def)
  have t: "stored (snd (handle_completion (env_at 100) ''alice'' 1 partial_data
        completed_unprocessed)) =
      [complete_record 100 partial_data ((seed ''alice'' 1 ''1'')\<lparr>status := ''completed''\<rparr>)]"
    unfolding completed_unprocessed_def
    apply (simp only: handle_completion_stored stored_file_world)
    apply (simp add: completion_target_def seed_def env_at_def)
    done
  have k: "completed_slots (fst (get_participant_progress ''alice''
      (snd (handle_completion (env_at 100) ''alice'' 1 partial_data completed_unprocessed)))) = 1"
    by (simp add: completed_slots_count t seed_def)
  from a b c d e f g h i j k show ?thesis by blast
qed

text \<open>
  C8 as amended: in a file that lists no slot of a participant twice and whose
  completed records are all processed, a successful completion raises the count of
  completed slots by exactly one, and after every further sequence of calls
  \<^verbatim>\<open>get_current_slot_for_participant\<close> returns no record of that slot, because
  \<^verbatim>\<open>processed\<close> is never reset.
\<close>

theorem completion_counts_once_and_slot_never_returns:
  assumes u: "unique_slots (stored w)"
    and c: "\<forall>r \<in> set (stored w). status r = ''completed'' \<longrightarrow> processed r"
    and ok: "fst (handle_completion e pid s d w)"
  shows "completed_slots (fst (get_participant_progress pid
            (snd (handle_completion e pid s d w)))) =
           completed_slots (fst (get_participant_progress pid w)) + 1 \<and>
         (fst (get_current_slot_for_participant e' pid
                 (run ops (snd (handle_completion e pid s d w)))) = Some r \<longrightarrow>
          slot r \<noteq> s)"
proof -
  let ?w' = "snd (handle_completion e pid s d w)"
  from ok obtain i r0 where t: "completion_target pid s (stored w) = Some (i, r0)"
    and dk: "disk e = Written"
    by (auto simp: handle_completion_result)
  from t have i: "i < length (stored w)" and r0: "stored w ! i = r0"
    and p0: "participant_id r0 = pid" and s0: "slot r0 = s" and n0: "\<not> processed r0"
    by (auto dest: completion_target_Some)
  from t dk have st: "stored ?w' = (stored w)[i := complete_record (clock e) d r0]"
    by (simp add: handle_completion_stored)
  from i r0 have "r0 \<in> set (stored w)" by auto
  with c n0 have nc: "status r0 \<noteq> ''completed''" by blast
  have count: "completed_slots (fst (get_participant_progress pid ?w')) =
      completed_slots (fst (get_participant_progress pid w)) + 1"
    unfolding completed_slots_count st
    using i r0 p0 nc
    by (simp add: length_filter_update [where P = "\<lambda>r. participant_id r = pid \<and> status r = ''completed''"])
  have never: "slot r \<noteq> s"
    if g: "fst (get_current_slot_for_participant e' pid (run ops ?w')) = Some r"
  proof
    assume sr: "slot r = s"
    let ?ys = "stored (run ops ?w')"
    from g obtain j rj where ce: "current_entry pid ?ys = Some (j, rj)"
      and rr: "r = rj\<lparr>start_timestamp := At (clock e')\<rparr>"
      by (auto simp: get_current_slot_result)
    from ce have j: "j < length ?ys" and yj: "?ys ! j = rj" and pj: "participant_id rj = pid"
      and ej: "eligible rj"
      by (auto dest: current_entry_Some)
    from j have "?ys \<noteq> []" by auto
    then have f2: "eval_file (run ops ?w') \<noteq> None"
      by (auto dest: stored_nonempty)
    from t dk have f1: "eval_file ?w' \<noteq> None"
      by (simp add: handle_completion_file)
    from f1 have ev1: "list_all2 evolves (stored w) (stored ?w')"
      by (rule handle_completion_evolves)
    from f2 have ev2: "list_all2 evolves (stored ?w') ?ys"
      by (rule run_evolves)
    from ev1 u have u1: "unique_slots (stored ?w')" by (rule unique_slots_evolves)
    from ev2 u1 have u2: "unique_slots ?ys" by (rule unique_slots_evolves)
    from ev2 have l2: "length ?ys = length (stored ?w')"
      by (simp add: list_all2_lengthD)
    from i have i': "i < length (stored ?w')" by (simp add: st)
    from i have at: "stored ?w' ! i = complete_record (clock e) d r0" by (simp add: st)
    from list_all2_nthD [OF ev2 i'] have ei: "evolves (stored ?w' ! i) (?ys ! i)" .
    from ei at p0 s0 have yi: "participant_id (?ys ! i) = pid \<and> slot (?ys ! i) = s \<and>
        processed (?ys ! i)"
      by (simp add: evolves_def)
    from rr sr have sj: "slot rj = s" by simp
    from u2 j i' l2 yi yj pj sj have "j = i"
      unfolding unique_slots_def by auto
    with yi yj ej show False by (simp add: eligible_def)
  qed
  from count never show ?thesis by blast
qed

theorem completion_counts_once_and_slot_never_returns_witness:
  "fst (handle_completion (env_at 100) ''alice'' 1 partial_data two_slots) \<and>
   completed_slots (fst (get_participant_progress ''alice'' two_slots)) = 0 \<and>
   completed_slots (fst (get_participant_progress ''alice''
      (snd (handle_completion (env_at 100) ''alice'' 1 partial_data two_slots)))) = 1 \<and>
   fst (get_current_slot_for_participant (env_at 200) ''alice''
      (run [Interrupt (env_at 150) ''alice'' 1 ''1'']
         (snd (handle_completion (env_at 100) ''alice'' 1 partial_data two_slots)))) =
     Some ((seed ''alice'' 2 ''2'')\<lparr>start_timestamp := At 200\<rparr>) \<and>
   slot ((seed ''alice'' 2 ''2'')\<lparr>start_timestamp := At 200\<rparr>) \<noteq> 1"
proof -
  let ?w' = "snd (handle_completion (env_at 100) ''alice'' 1 partial_data two_slots)"
  have s: "stored two_slots = [seed ''alice'' 1 ''1'', seed ''alice'' 2 ''2'']"
    by (simp add: two_slots_def)
  have u: "unique_slots (stored two_slots)"
    unfolding s unique_slots_def by (auto simp: less_Suc_eq seed_def)
  have c: "\<forall>r \<in> set (stored two_slots). status r = ''completed'' \<longrightarrow> processed r"
    unfolding s by (simp add: seed_def)
  have ok: "fst (handle_completion (env_at 100) ''alice'' 1 partial_data two_slots)"
    by (simp add: handle_completion_result completion_target_def s seed_def env_at_def)
  have z: "completed_slots (fst (get_participant_progress ''alice'' two_slots)) = 0"
    by (simp add: completed_slots_count s seed_def)
  have s1: "stored ?w' =
      [complete_record 100 partial_data (seed ''alice'' 1 ''1''), seed ''alice'' 2 ''2'']"
    apply (simp only: handle_completion_stored s)
    apply (simp add: completion_target_def seed_def env_at_def)
    done
  have s2: "stored (run [Interrupt (env_at 150) ''alice'' 1 ''1''] ?w') =
      [(complete_record 100 partial_data (seed ''alice'' 1 ''1''))
         \<lparr>excluded_papers := Some [''1''], paper_id := ''2'', status := ''assigned'',
          start_timestamp := Null\<rparr>,
       seed ''alice'' 2 ''2'']"
    unfolding run_def
    apply (simp only: fold_simps apply_operation.simps handle_interruption_stored s1)
    apply (simp add: interruption_target_def select_replacement_paper_def all_papers_def
        exclude_paper_def excluded_def complete_record_def seed_def env_at_def Let_def)
    done
  have g: "fst (get_current_slot_for_participant (env_at 200) ''alice''
      (run [Interrupt (env_at 150) ''alice'' 1 ''1''] ?w')) =
     Some ((seed ''alice'' 2 ''2'')\<lparr>start_timestamp := At 200\<rparr>)"
    apply (simp only: get_current_slot_result s2)
    apply (simp add: current_entry_def eligible_def complete_record_def seed_def env_at_def)
    done
  from completion_counts_once_and_slot_never_returns [OF u c ok,
      where e' = "env_at 200" and ops = "[Interrupt (env_at 150) ''alice'' 1 ''1'']"
        and r = "(seed ''alice'' 2 ''2'')\<lparr>start_timestamp := At 200\<rparr>"] ok z g
  show ?thesis by simp
qed

end
